theory Spec2Isabelle
  imports Complex_Main "HOL-Library.Sublist" "HOL-Library.AList"
begin

section \<open>JavaScript strings\<close>

text \<open>
  A JavaScript string is modelled as a \<open>string\<close>, one \<open>char\<close> per code unit, so the model
  covers texts whose code units are below 256.  The white space of \<open>\s\<close>, of \<open>trim\<close> and of
  \<open>parseFloat\<close> is then tab, line feed, vertical tab, form feed, carriage return, space and
  the no-break space.
\<close>

definition is_space :: "char \<Rightarrow> bool" where
  "is_space c = (c \<in> set [CHR 0x09, CHR 0x0A, CHR 0x0B, CHR 0x0C, CHR 0x0D, CHR '' '', CHR 0xA0])"

text \<open>\<open>s.trim()\<close>\<close>

definition trim :: "string \<Rightarrow> string" where
  "trim s = rev (dropWhile is_space (rev (dropWhile is_space s)))"

text \<open>\<open>s.replace(/\s+/g, " ")\<close>: every maximal run of white space becomes one space.\<close>

function replace_ws_runs :: "string \<Rightarrow> string" where
  "replace_ws_runs [] = []"
| "replace_ws_runs (c # cs) =
     (if is_space c then CHR '' '' # replace_ws_runs (dropWhile is_space cs)
      else c # replace_ws_runs cs)"
  by pat_completeness auto
termination
  by (relation "measure length") (auto simp: length_dropWhile_le le_imp_less_Suc)

text \<open>\<open>s.replace(/,\s+/g, ",")\<close>: a comma swallows the white space that follows it.\<close>

function replace_comma_ws :: "string \<Rightarrow> string" where
  "replace_comma_ws [] = []"
| "replace_comma_ws (c # cs) =
     (if c = CHR '','' then c # replace_comma_ws (dropWhile is_space cs)
      else c # replace_comma_ws cs)"
  by pat_completeness auto
termination
  by (relation "measure length") (auto simp: length_dropWhile_le le_imp_less_Suc)

text \<open>
  \<open>s.split(/\s+/)\<close>: the fields between maximal runs of white space; a run at either end
  of the text leaves an empty field there, and the empty text has the one field \<open>""\<close>.
\<close>

function split_ws :: "string \<Rightarrow> string list" where
  "split_ws s =
     (let w = takeWhile (\<lambda>c. \<not> is_space c) s;
          r = dropWhile (\<lambda>c. \<not> is_space c) s
      in if r = [] then [w] else w # split_ws (dropWhile is_space r))"
  by pat_completeness auto
termination
proof (relation "measure length", simp, goal_cases)
  case (1 s w r)
  then obtain c cs where r: "r = c # cs" and c: "is_space c"
    by (metis hd_dropWhile list.exhaust_sel)
  have "length (dropWhile is_space r) \<le> length cs"
    using r c by (simp add: length_dropWhile_le)
  moreover have "length r \<le> length s"
    using 1 by (simp add: length_dropWhile_le)
  ultimately show ?case using r by simp
qed

text \<open>\<open>s.split(",")\<close> for a one-character separator: always at least one field.\<close>

primrec split_on :: "char \<Rightarrow> string \<Rightarrow> string list" where
  "split_on sep [] = [[]]"
| "split_on sep (c # cs) =
     (if c = sep then [] # split_on sep cs
      else (case split_on sep cs of
              [] \<Rightarrow> [[c]]
            | f # fs \<Rightarrow> (c # f) # fs))"

text \<open>\<open>s.includes(t)\<close>, \<open>s.startsWith(t)\<close>, \<open>s.endsWith(t)\<close>, \<open>s.substring(a, b)\<close>.\<close>

primrec includes_js :: "string \<Rightarrow> string \<Rightarrow> bool" where
  "includes_js [] t = (t = [])"
| "includes_js (c # cs) t = (prefix t (c # cs) \<or> includes_js cs t)"

definition startsWith :: "string \<Rightarrow> string \<Rightarrow> bool" where
  "startsWith s t = prefix t s"

definition endsWith :: "string \<Rightarrow> string \<Rightarrow> bool" where
  "endsWith s t = suffix t s"

definition substring :: "nat \<Rightarrow> nat \<Rightarrow> string \<Rightarrow> string" where
  "substring a b s = take (max a b - min a b) (drop (min a b) s)"

text \<open>\<open>xs[i]\<close>: a read out of range is \<open>undefined\<close>, here \<open>None\<close>.\<close>

definition nth_opt :: "'a list \<Rightarrow> nat \<Rightarrow> 'a option" where
  "nth_opt xs i = (if i < length xs then Some (xs ! i) else None)"

section \<open>JavaScript numbers\<close>

text \<open>
  A number is \<open>NaN\<close>, one of the two infinities or a finite value, a real.  The sign of
  zero is not distinguished.  The operations that follow give the exact result on finite
  values and the result of the language on the others; the operations with the rounding
  of doubles come after them, and \<open>calculateDistance\<close> is stated with those.
\<close>

datatype jsnum = NaN | Infinity | NegInfinity | Num real

definition isNaN :: "jsnum \<Rightarrow> bool" where
  "isNaN x = (x = NaN)"

fun jneg :: "jsnum \<Rightarrow> jsnum" where
  "jneg NaN = NaN"
| "jneg Infinity = NegInfinity"
| "jneg NegInfinity = Infinity"
| "jneg (Num a) = Num (- a)"

fun jadd :: "jsnum \<Rightarrow> jsnum \<Rightarrow> jsnum" where
  "jadd (Num a) (Num b) = Num (a + b)"
| "jadd NaN _ = NaN"
| "jadd _ NaN = NaN"
| "jadd Infinity NegInfinity = NaN"
| "jadd NegInfinity Infinity = NaN"
| "jadd Infinity _ = Infinity"
| "jadd _ Infinity = Infinity"
| "jadd NegInfinity _ = NegInfinity"
| "jadd _ NegInfinity = NegInfinity"

definition jsub :: "jsnum \<Rightarrow> jsnum \<Rightarrow> jsnum" where
  "jsub x y = jadd x (jneg y)"

text \<open>The sign of a product with an infinite factor; zero times infinity is \<open>NaN\<close>.\<close>

definition inf_signed :: "real \<Rightarrow> jsnum" where
  "inf_signed s = (if s = 0 then NaN else if 0 < s then Infinity else NegInfinity)"

fun jsignum :: "jsnum \<Rightarrow> real" where
  "jsignum (Num a) = sgn a"
| "jsignum Infinity = 1"
| "jsignum NegInfinity = - 1"
| "jsignum NaN = 0"

fun jmul :: "jsnum \<Rightarrow> jsnum \<Rightarrow> jsnum" where
  "jmul (Num a) (Num b) = Num (a * b)"
| "jmul NaN _ = NaN"
| "jmul _ NaN = NaN"
| "jmul x y = inf_signed (jsignum x * jsignum y)"

fun jdiv :: "jsnum \<Rightarrow> jsnum \<Rightarrow> jsnum" where
  "jdiv (Num a) (Num b) = (if b = 0 then inf_signed a else Num (a / b))"
| "jdiv NaN _ = NaN"
| "jdiv _ NaN = NaN"
| "jdiv (Num a) _ = Num 0"
| "jdiv x (Num b) = inf_signed (jsignum x * (if b < 0 then - 1 else 1))"
| "jdiv _ _ = NaN"

fun jsin :: "jsnum \<Rightarrow> jsnum" where
  "jsin (Num a) = Num (sin a)"
| "jsin _ = NaN"

fun jcos :: "jsnum \<Rightarrow> jsnum" where
  "jcos (Num a) = Num (cos a)"
| "jcos _ = NaN"

fun jsqrt :: "jsnum \<Rightarrow> jsnum" where
  "jsqrt (Num a) = (if a < 0 then NaN else Num (sqrt a))"
| "jsqrt Infinity = Infinity"
| "jsqrt _ = NaN"

fun jabs :: "jsnum \<Rightarrow> jsnum" where
  "jabs (Num a) = Num \<bar>a\<bar>"
| "jabs NaN = NaN"
| "jabs _ = Infinity"

text \<open>\<open>Math.atan2(y, x)\<close>: the angle of the point \<open>(x, y)\<close>, in \<open>(-\<pi>, \<pi>]\<close>.\<close>

definition atan2 :: "real \<Rightarrow> real \<Rightarrow> real" where
  "atan2 y x =
     (if 0 < x then arctan (y / x)
      else if x < 0 then (if 0 \<le> y then arctan (y / x) + pi else arctan (y / x) - pi)
      else if 0 < y then pi / 2
      else if y < 0 then - (pi / 2)
      else 0)"

fun jatan2 :: "jsnum \<Rightarrow> jsnum \<Rightarrow> jsnum" where
  "jatan2 (Num y) (Num x) = Num (atan2 y x)"
| "jatan2 NaN _ = NaN"
| "jatan2 _ NaN = NaN"
| "jatan2 Infinity Infinity = Num (pi / 4)"
| "jatan2 Infinity NegInfinity = Num (3 * pi / 4)"
| "jatan2 NegInfinity Infinity = Num (- (pi / 4))"
| "jatan2 NegInfinity NegInfinity = Num (- (3 * pi / 4))"
| "jatan2 Infinity (Num x) = Num (pi / 2)"
| "jatan2 NegInfinity (Num x) = Num (- (pi / 2))"
| "jatan2 (Num y) Infinity = Num 0"
| "jatan2 (Num y) NegInfinity = (if y < 0 then Num (- pi) else Num pi)"

definition PI :: jsnum where
  "PI = Num pi"

subsection \<open>Double arithmetic with its rounding\<close>

text \<open>
  The arithmetic of doubles, as a parameter.  \<open>round_d\<close> gives the double that stands for
  the exact result of an operation on finite doubles, an infinity when the result
  overflows.  \<open>sin_d\<close>, \<open>cos_d\<close>, \<open>sqrt_d\<close> and \<open>atan2_d\<close> are \<open>Math.sin\<close>,
  \<open>Math.cos\<close>, \<open>Math.sqrt\<close> and \<open>Math.atan2\<close> on finite arguments; the language
  leaves their values to the implementation.  On an argument that is not finite the
  operations follow the tables above.
\<close>

record arith =
  round_d :: "real \<Rightarrow> jsnum"
  sin_d :: "real \<Rightarrow> real"
  cos_d :: "real \<Rightarrow> real"
  sqrt_d :: "real \<Rightarrow> real"
  atan2_d :: "real \<Rightarrow> real \<Rightarrow> real"

text \<open>The arithmetic without rounding: the operations above are its instance.\<close>

definition exact_arith :: arith where
  "exact_arith = \<lparr>round_d = Num, sin_d = sin, cos_d = cos, sqrt_d = sqrt, atan2_d = atan2\<rparr>"

fun radd :: "arith \<Rightarrow> jsnum \<Rightarrow> jsnum \<Rightarrow> jsnum" where
  "radd ar (Num a) (Num b) = round_d ar (a + b)"
| "radd ar x y = jadd x y"

definition rsub :: "arith \<Rightarrow> jsnum \<Rightarrow> jsnum \<Rightarrow> jsnum" where
  "rsub ar x y = radd ar x (jneg y)"

fun rmul :: "arith \<Rightarrow> jsnum \<Rightarrow> jsnum \<Rightarrow> jsnum" where
  "rmul ar (Num a) (Num b) = round_d ar (a * b)"
| "rmul ar x y = jmul x y"

fun rdiv :: "arith \<Rightarrow> jsnum \<Rightarrow> jsnum \<Rightarrow> jsnum" where
  "rdiv ar (Num a) (Num b) = (if b = 0 then inf_signed a else round_d ar (a / b))"
| "rdiv ar x y = jdiv x y"

fun rsin :: "arith \<Rightarrow> jsnum \<Rightarrow> jsnum" where
  "rsin ar (Num a) = Num (sin_d ar a)"
| "rsin ar x = NaN"

fun rcos :: "arith \<Rightarrow> jsnum \<Rightarrow> jsnum" where
  "rcos ar (Num a) = Num (cos_d ar a)"
| "rcos ar x = NaN"

fun rsqrt :: "arith \<Rightarrow> jsnum \<Rightarrow> jsnum" where
  "rsqrt ar (Num a) = (if a < 0 then NaN else Num (sqrt_d ar a))"
| "rsqrt ar Infinity = Infinity"
| "rsqrt ar x = NaN"

fun ratan2 :: "arith \<Rightarrow> jsnum \<Rightarrow> jsnum \<Rightarrow> jsnum" where
  "ratan2 ar (Num y) (Num x) = Num (atan2_d ar y x)"
| "ratan2 ar y x = (case jatan2 y x of Num v \<Rightarrow> round_d ar v | z \<Rightarrow> z)"

text \<open>\<open>Math.PI\<close>: the double that stands for \<open>\<pi>\<close>.\<close>

definition PI_d :: "arith \<Rightarrow> jsnum" where
  "PI_d ar = round_d ar pi"

subsection \<open>\<open>Number.parseFloat\<close>\<close>

text \<open>
  \<open>parseFloat\<close> skips leading white space and reads the longest prefix that is a decimal
  literal: an optional sign, then \<open>Infinity\<close> or digits with an optional fraction and an
  optional exponent.  No such prefix, or the argument \<open>undefined\<close>, gives \<open>NaN\<close>.
  A literal is read as its exact value: it is not rounded to a double, so a literal beyond
  the range of doubles, such as \<open>1e400\<close>, stays finite here.  Whether the result is
  \<open>NaN\<close> does not depend on that.
\<close>

definition is_digit :: "char \<Rightarrow> bool" where
  "is_digit c = (c \<in> set ''0123456789'')"

definition digit_val :: "char \<Rightarrow> nat" where
  "digit_val c = of_char c - 48"

definition digits_val :: "string \<Rightarrow> nat" where
  "digits_val ds = foldl (\<lambda>n c. 10 * n + digit_val c) 0 ds"

definition pow10 :: "int \<Rightarrow> real" where
  "pow10 e = (if 0 \<le> e then 10 ^ nat e else 1 / 10 ^ nat (- e))"

text \<open>The exponent part at the head of the text; absent or without digits it counts as 0.\<close>

definition parse_exponent :: "string \<Rightarrow> int" where
  "parse_exponent r =
     (case r of
        [] \<Rightarrow> 0
      | c # r1 \<Rightarrow>
          if c = CHR ''e'' \<or> c = CHR ''E'' then
            (case r1 of
               [] \<Rightarrow> 0
             | d # r2 \<Rightarrow>
                 if d = CHR ''-'' then - int (digits_val (takeWhile is_digit r2))
                 else if d = CHR ''+'' then int (digits_val (takeWhile is_digit r2))
                 else int (digits_val (takeWhile is_digit r1)))
          else 0)"

definition parse_decimal :: "string \<Rightarrow> jsnum" where
  "parse_decimal s =
     (if prefix ''Infinity'' s then Infinity
      else
        let ip = takeWhile is_digit s;
            r = dropWhile is_digit s;
            fp = (case r of [] \<Rightarrow> [] | c # r' \<Rightarrow> if c = CHR ''.'' then takeWhile is_digit r' else []);
            r2 = (case r of [] \<Rightarrow> [] | c # r' \<Rightarrow> if c = CHR ''.'' then dropWhile is_digit r' else r)
        in if ip = [] \<and> fp = [] then NaN
           else Num ((real (digits_val ip) + real (digits_val fp) / 10 ^ length fp)
                     * pow10 (parse_exponent r2)))"

definition parseFloat :: "string option \<Rightarrow> jsnum" where
  "parseFloat a =
     (case a of
        None \<Rightarrow> NaN
      | Some s \<Rightarrow>
          (case dropWhile is_space s of
             [] \<Rightarrow> NaN
           | c # r \<Rightarrow>
               if c = CHR ''-'' then jneg (parse_decimal r)
               else if c = CHR ''+'' then parse_decimal r
               else parse_decimal (c # r)))"

section \<open>Coordinate tokenizer\<close>

text \<open>
  The callback of \<open>coordStrings.map\<close> in \<open>parseCoordinates\<close> and in
  \<open>parseCoordinatesText\<close>: one token to one triple.  None of its operations raises, so the
  \<open>catch\<close> around it has no branch in the model.
\<close>

definition coord_of_token :: "string \<Rightarrow> jsnum list" where
  "coord_of_token coordStr =
     (let parts = split_on (CHR '','') coordStr;
          lng = parseFloat (nth_opt parts 0);
          lat = parseFloat (nth_opt parts 1);
          alt = (if 2 < length parts then parseFloat (nth_opt parts 2) else Num 0)
      in if isNaN lng \<or> isNaN lat then [Num 0, Num 0, Num 0] else [lng, lat, alt])"

text \<open>The tokens: trim, normalise white space, drop it after commas, split, drop empty fields.\<close>

definition coord_tokens :: "string \<Rightarrow> string list" where
  "coord_tokens s =
     filter (\<lambda>t. t \<noteq> []) (split_ws (replace_comma_ws (replace_ws_runs (trim s))))"

text \<open>\<open>parseCoordinates\<close>; the argument \<open>None\<close> is \<open>null\<close> or \<open>undefined\<close>.\<close>

definition parseCoordinates :: "string option \<Rightarrow> jsnum list list" where
  "parseCoordinates coordinatesString =
     (case coordinatesString of
        None \<Rightarrow> []
      | Some s \<Rightarrow> if s = [] then [] else map coord_of_token (coord_tokens s))"

section \<open>Color codec\<close>

definition kmlColorToHex :: "string option \<Rightarrow> string" where
  "kmlColorToHex kmlColor =
     (case kmlColor of
        None \<Rightarrow> ''#3700ff''
      | Some s \<Rightarrow>
          if s = [] \<or> length s \<noteq> 8 then ''#3700ff''
          else
            let alpha = substring 0 2 s;
                blue = substring 2 4 s;
                green = substring 4 6 s;
                red = substring 6 8 s
            in ''#'' @ red @ green @ blue)"

section \<open>Geodesic metrics\<close>

text \<open>
  \<open>calculateDistance\<close>, in a given double arithmetic.  Every operation of the source is
  one rounded operation here, in the order the source evaluates them.
\<close>

definition calculateDistance :: "arith \<Rightarrow> jsnum \<Rightarrow> jsnum \<Rightarrow> jsnum \<Rightarrow> jsnum \<Rightarrow> jsnum" where
  "calculateDistance ar lat1 lon1 lat2 lon2 =
     (let R = Num 6371;
          dLat = rdiv ar (rmul ar (rsub ar lat2 lat1) (PI_d ar)) (Num 180);
          dLon = rdiv ar (rmul ar (rsub ar lon2 lon1) (PI_d ar)) (Num 180);
          a = radd ar
                (rmul ar (rsin ar (rdiv ar dLat (Num 2))) (rsin ar (rdiv ar dLat (Num 2))))
                (rmul ar
                   (rmul ar
                      (rmul ar (rcos ar (rdiv ar (rmul ar lat1 (PI_d ar)) (Num 180)))
                               (rcos ar (rdiv ar (rmul ar lat2 (PI_d ar)) (Num 180))))
                      (rsin ar (rdiv ar dLon (Num 2))))
                   (rsin ar (rdiv ar dLon (Num 2))));
          c = rmul ar (Num 2) (ratan2 ar (rsqrt ar a) (rsqrt ar (rsub ar (Num 1) a)))
      in rmul ar R c)"

text \<open>\<open>coordinates[i][k]\<close> as a number: a missing entry is \<open>undefined\<close>, which is \<open>NaN\<close> in arithmetic.\<close>

definition num_at :: "jsnum list list \<Rightarrow> nat \<Rightarrow> nat \<Rightarrow> jsnum" where
  "num_at coordinates i k =
     (case nth_opt coordinates i of
        None \<Rightarrow> NaN
      | Some c \<Rightarrow> (case nth_opt c k of None \<Rightarrow> NaN | Some x \<Rightarrow> x))"

text \<open>The body of the loop of \<open>calculatePolygonArea\<close> at index \<open>i\<close>.\<close>

definition area_step :: "jsnum list list \<Rightarrow> jsnum \<Rightarrow> nat \<Rightarrow> jsnum" where
  "area_step coordinates area i =
     (let j = (i + 1) mod length coordinates;
          lat1 = jdiv (jmul (num_at coordinates i 1) PI) (Num 180);
          lon1 = jdiv (jmul (num_at coordinates i 0) PI) (Num 180);
          lat2 = jdiv (jmul (num_at coordinates j 1) PI) (Num 180);
          lon2 = jdiv (jmul (num_at coordinates j 0) PI) (Num 180)
      in jadd area (jmul (jsub lon2 lon1) (jadd (jadd (Num 2) (jsin lat1)) (jsin lat2))))"

definition calculatePolygonArea :: "jsnum list list \<Rightarrow> jsnum" where
  "calculatePolygonArea coordinates =
     (if length coordinates < 3 then Num 0
      else
        let R = Num 6371;
            area = foldl (area_step coordinates) (Num 0) [0 ..< length coordinates]
        in jabs (jdiv (jmul (jmul area R) R) (Num 2)))"

section \<open>The document tree\<close>

text \<open>
  What \<open>DOMParser\<close> returns: a tree of elements, texts and comments.  \<open>tagName\<close> is the
  local name of the element, which is what a type selector compares, case sensitively in an
  XML document.  A document is the list of the children of its document node.
\<close>

datatype xml =
    Element (tagName: string) (attributes: "(string \<times> string) list") (childNodes: "xml list")
  | Text string
  | Comment string

type_synonym document = "xml list"

text \<open>
  A node handed to the parser comes with the names of its ancestors, nearest first: a
  selector such as \<open>"ExtendedData Data"\<close> looks at them.
\<close>

type_synonym node = "string list \<times> xml"

fun subtree_elems :: "string list \<Rightarrow> xml \<Rightarrow> node list" where
  "subtree_elems anc (Element t as cs) =
     (anc, Element t as cs) # concat (map (subtree_elems (t # anc)) cs)"
| "subtree_elems anc (Text s) = []"
| "subtree_elems anc (Comment s) = []"

text \<open>The elements below a node, in document order.\<close>

definition descendants :: "node \<Rightarrow> node list" where
  "descendants n =
     (case snd n of
        Element t as cs \<Rightarrow> concat (map (subtree_elems (t # fst n)) cs)
      | _ \<Rightarrow> [])"

definition doc_elems :: "document \<Rightarrow> node list" where
  "doc_elems xmlDoc = concat (map (subtree_elems []) xmlDoc)"

text \<open>
  A selector is a list of type selectors joined by descendant combinators, written as the
  list of its names: \<open>"kml Document"\<close> is \<open>[''kml'', ''Document'']\<close>.
\<close>

fun anc_match :: "string list \<Rightarrow> string list \<Rightarrow> bool" where
  "anc_match [] anc = True"
| "anc_match (t # ts) [] = False"
| "anc_match (t # ts) (a # anc) = (if a = t then anc_match ts anc else anc_match (t # ts) anc)"

definition matches :: "string list \<Rightarrow> node \<Rightarrow> bool" where
  "matches sel n =
     (case rev sel of
        [] \<Rightarrow> False
      | t # ts \<Rightarrow> (case snd n of Element name as cs \<Rightarrow> name = t \<and> anc_match ts (fst n) | _ \<Rightarrow> False))"

definition querySelectorAll :: "string list \<Rightarrow> node \<Rightarrow> node list" where
  "querySelectorAll sel n = filter (matches sel) (descendants n)"

definition querySelector :: "string list \<Rightarrow> node \<Rightarrow> node option" where
  "querySelector sel n = (case querySelectorAll sel n of [] \<Rightarrow> None | e # es \<Rightarrow> Some e)"

definition doc_querySelectorAll :: "string list \<Rightarrow> document \<Rightarrow> node list" where
  "doc_querySelectorAll sel xmlDoc = filter (matches sel) (doc_elems xmlDoc)"

definition doc_querySelector :: "string list \<Rightarrow> document \<Rightarrow> node option" where
  "doc_querySelector sel xmlDoc = (case doc_querySelectorAll sel xmlDoc of [] \<Rightarrow> None | e # es \<Rightarrow> Some e)"

text \<open>\<open>textContent\<close> of an element: the texts below it, comments left out.\<close>

fun textContent :: "xml \<Rightarrow> string" where
  "textContent (Element t as cs) = concat (map textContent cs)"
| "textContent (Text s) = s"
| "textContent (Comment s) = []"

text \<open>\<open>e?.textContent\<close>\<close>

definition text_of :: "node option \<Rightarrow> string option" where
  "text_of e = map_option (\<lambda>n. textContent (snd n)) e"

definition getAttribute :: "node \<Rightarrow> string \<Rightarrow> string option" where
  "getAttribute n a = (case snd n of Element t as cs \<Rightarrow> map_of as a | _ \<Rightarrow> None)"

text \<open>A string in a condition: \<open>undefined\<close>, \<open>null\<close> and \<open>""\<close> are false.\<close>

definition truthy :: "string option \<Rightarrow> bool" where
  "truthy x = (case x of None \<Rightarrow> False | Some s \<Rightarrow> s \<noteq> [])"

text \<open>\<open>x || undefined\<close>\<close>

definition or_undefined :: "string option \<Rightarrow> string option" where
  "or_undefined x = (if truthy x then x else None)"

section \<open>The data model\<close>

datatype KmlElementType = Point | LineString | Polygon | MultiGeometry | GroundOverlay | NetworkLink

record KmlStyle =
  style_id :: "string option"
  color :: "string option"
  width :: "jsnum option"
  opacity :: "jsnum option"
  fillColor :: "string option"
  fillOpacity :: "jsnum option"
  strokeColor :: "string option"
  strokeWidth :: "jsnum option"
  strokeOpacity :: "jsnum option"
  iconUrl :: "string option"
  iconScale :: "jsnum option"

text \<open>The three shapes the field \<open>coordinates\<close> takes: one triple, a list of them, a list of rings.\<close>

datatype coords = Triple "jsnum list" | Path "jsnum list list" | Rings "jsnum list list list"

record Metadata =
  meta_length :: "jsnum option"
  meta_area :: "jsnum option"

record KmlElement =
  elem_id :: string
  elem_type :: KmlElementType
  name :: "string option"
  description :: "string option"
  coordinates :: coords
  style :: "KmlStyle option"
  extendedData :: "(string \<times> string) list option"
  metadata :: "Metadata option"

record KmlData =
  doc_name :: "string option"
  doc_description :: "string option"
  elements :: "KmlElement list"

section \<open>Style resolver\<close>

type_synonym style_table = "string \<rightharpoonup> KmlStyle"

definition empty_style :: KmlStyle where
  "empty_style =
     \<lparr>style_id = None, color = None, width = None, opacity = None, fillColor = None,
      fillOpacity = None, strokeColor = None, strokeWidth = None, strokeOpacity = None,
      iconUrl = None, iconScale = None\<rparr>"

definition line_style :: "node \<Rightarrow> KmlStyle \<Rightarrow> KmlStyle" where
  "line_style styleEl st =
     (case querySelector [''LineStyle''] styleEl of
        None \<Rightarrow> st
      | Some lineStyle \<Rightarrow>
          let color_t = text_of (querySelector [''color''] lineStyle);
              width_t = text_of (querySelector [''width''] lineStyle);
              st1 = (if truthy color_t then st\<lparr>color := Some (kmlColorToHex color_t)\<rparr> else st)
          in if truthy width_t then st1\<lparr>width := Some (parseFloat width_t)\<rparr> else st1)"

definition poly_style :: "node \<Rightarrow> KmlStyle \<Rightarrow> KmlStyle" where
  "poly_style styleEl st =
     (case querySelector [''PolyStyle''] styleEl of
        None \<Rightarrow> st
      | Some polyStyle \<Rightarrow>
          let color_t = text_of (querySelector [''color''] polyStyle);
              fill = text_of (querySelector [''fill''] polyStyle);
              outline = text_of (querySelector [''outline''] polyStyle);
              st1 = (if truthy color_t then st\<lparr>fillColor := Some (kmlColorToHex color_t)\<rparr> else st);
              st2 = (if truthy fill
                     then st1\<lparr>fillOpacity := Some (if fill = Some ''1'' then Num 0.5 else Num 0)\<rparr>
                     else st1)
          in if truthy outline
             then st2\<lparr>strokeOpacity := Some (if outline = Some ''1'' then Num 1 else Num 0)\<rparr>
             else st2)"

definition icon_style :: "node \<Rightarrow> KmlStyle \<Rightarrow> KmlStyle" where
  "icon_style styleEl st =
     (case querySelector [''IconStyle''] styleEl of
        None \<Rightarrow> st
      | Some iconStyle \<Rightarrow>
          let scale_t = text_of (querySelector [''scale''] iconStyle);
              icon = text_of (querySelector [''Icon'', ''href''] iconStyle);
              st1 = (if truthy scale_t then st\<lparr>iconScale := Some (parseFloat scale_t)\<rparr> else st)
          in if truthy icon then st1\<lparr>iconUrl := icon\<rparr> else st1)"

text \<open>The callback of \<open>styleElements.forEach\<close>.\<close>

definition style_step :: "style_table \<Rightarrow> node \<Rightarrow> style_table" where
  "style_step styles styleEl =
     (let i = getAttribute styleEl ''id''
      in if \<not> truthy i then styles
         else styles(the i \<mapsto> icon_style styleEl (poly_style styleEl (line_style styleEl empty_style))))"

text \<open>The normal pair of a style map and the text of its \<open>styleUrl\<close>.\<close>

definition normal_styleUrl :: "node \<Rightarrow> string option" where
  "normal_styleUrl styleMap =
     (let normalPair =
            find (\<lambda>pair. case querySelector [''key''] pair of
                            None \<Rightarrow> False
                          | Some key \<Rightarrow> textContent (snd key) = ''normal'')
                 (querySelectorAll [''Pair''] styleMap)
      in case normalPair of None \<Rightarrow> None | Some pair \<Rightarrow> text_of (querySelector [''styleUrl''] pair))"

text \<open>The callback of \<open>styleMaps.forEach\<close>.\<close>

definition styleMap_step :: "style_table \<Rightarrow> node \<Rightarrow> style_table" where
  "styleMap_step styles styleMap =
     (let i = getAttribute styleMap ''id''
      in if \<not> truthy i then styles
         else
           let styleUrl = normal_styleUrl styleMap
           in if truthy styleUrl \<and> startsWith (the styleUrl) ''#'' then
                (case styles (drop 1 (the styleUrl)) of
                   None \<Rightarrow> styles
                 | Some referencedStyle \<Rightarrow> styles(the i \<mapsto> referencedStyle))
              else styles)"

definition parseStyles :: "document \<Rightarrow> style_table" where
  "parseStyles xmlDoc =
     foldl styleMap_step
       (foldl style_step Map.empty (doc_querySelectorAll [''Style''] xmlDoc))
       (doc_querySelectorAll [''StyleMap''] xmlDoc)"

section \<open>Geometry extractor\<close>

text \<open>
  \<open>uuidv4()\<close> is outside the repository and random: the parsers take the sequence
  \<open>uuid\<close> of the identifiers it hands out, and the element pushed when \<open>k\<close> elements
  are there already gets \<open>uuid k\<close>.  The fields every branch shares are gathered first.
\<close>

record placemark_info =
  pm_id :: string
  pm_name :: "string option"
  pm_description :: "string option"
  pm_style :: "KmlStyle option"
  pm_extendedData :: "(string \<times> string) list"

text \<open>
  \<open>extendedData[dataName] = dataValue\<close> on an object literal; assigning a string to
  \<open>__proto__\<close> creates no property.  The order of the entries carries no meaning.
\<close>

definition extendedData_step :: "(string \<times> string) list \<Rightarrow> node \<Rightarrow> (string \<times> string) list" where
  "extendedData_step ed dataEl =
     (let dataName = getAttribute dataEl ''name'';
          dataValue = text_of (querySelector [''value''] dataEl)
      in if truthy dataName \<and> truthy dataValue then
           (if the dataName = ''__proto__'' then ed
            else AList.update (the dataName) (the dataValue) ed)
         else ed)"

definition placemark_style :: "style_table \<Rightarrow> node \<Rightarrow> KmlStyle option" where
  "placemark_style styles placemark =
     (let styleUrl = text_of (querySelector [''styleUrl''] placemark)
      in if truthy styleUrl \<and> startsWith (the styleUrl) ''#''
         then styles (drop 1 (the styleUrl))
         else None)"

definition placemark_fields :: "string \<Rightarrow> style_table \<Rightarrow> node \<Rightarrow> placemark_info" where
  "placemark_fields uid styles placemark =
     \<lparr>pm_id = uid,
      pm_name = or_undefined (text_of (querySelector [''name''] placemark)),
      pm_description = or_undefined (text_of (querySelector [''description''] placemark)),
      pm_style = placemark_style styles placemark,
      pm_extendedData =
        foldl extendedData_step [] (querySelectorAll [''ExtendedData'', ''Data''] placemark)\<rparr>"

text \<open>\<open>Object.keys(extendedData).length > 0 ? extendedData : undefined\<close>\<close>

definition extendedData_opt :: "placemark_info \<Rightarrow> (string \<times> string) list option" where
  "extendedData_opt f = (if pm_extendedData f \<noteq> [] then Some (pm_extendedData f) else None)"

definition point_element :: "placemark_info \<Rightarrow> node \<Rightarrow> KmlElement option" where
  "point_element f point =
     (let cs = parseCoordinates (text_of (querySelector [''coordinates''] point))
      in if cs \<noteq> [] then
           Some \<lparr>elem_id = pm_id f, elem_type = Point, name = pm_name f,
                 description = pm_description f, coordinates = Triple (hd cs),
                 style = pm_style f, extendedData = extendedData_opt f, metadata = None\<rparr>
         else None)"

text \<open>
  The loop that sums the lengths of the segments of a line.  The sum is taken in the
  arithmetic without rounding; no statement below depends on its value.
\<close>

definition path_length :: "jsnum list list \<Rightarrow> jsnum" where
  "path_length cs =
     foldl (\<lambda>len i. jadd len (calculateDistance exact_arith
                                  (num_at cs (i - 1) 1) (num_at cs (i - 1) 0)
                                  (num_at cs i 1) (num_at cs i 0)))
           (Num 0) [1 ..< length cs]"

definition lineString_element :: "placemark_info \<Rightarrow> node \<Rightarrow> KmlElement option" where
  "lineString_element f lineString =
     (let cs = parseCoordinates (text_of (querySelector [''coordinates''] lineString))
      in if cs \<noteq> [] then
           Some \<lparr>elem_id = pm_id f, elem_type = LineString, name = pm_name f,
                 description = pm_description f, coordinates = Path cs,
                 style = pm_style f, extendedData = extendedData_opt f,
                 metadata = Some \<lparr>meta_length = Some (path_length cs), meta_area = None\<rparr>\<rparr>
         else None)"

text \<open>The rings of a polygon: the outer boundary if it has coordinates, then the holes that have.\<close>

definition outer_ring :: "node \<Rightarrow> jsnum list list list" where
  "outer_ring polygon =
     (let outerBoundary =
            text_of (querySelector [''outerBoundaryIs'', ''LinearRing'', ''coordinates''] polygon)
      in if truthy outerBoundary then
           (let outerCoords = parseCoordinates outerBoundary
            in if outerCoords \<noteq> [] then [outerCoords] else [])
         else [])"

definition inner_ring_step :: "jsnum list list list \<Rightarrow> node \<Rightarrow> jsnum list list list" where
  "inner_ring_step rings innerBoundary =
     (let innerCoords = parseCoordinates (Some (textContent (snd innerBoundary)))
      in if innerCoords \<noteq> [] then rings @ [innerCoords] else rings)"

definition polygon_rings :: "node \<Rightarrow> jsnum list list list" where
  "polygon_rings polygon =
     foldl inner_ring_step (outer_ring polygon)
       (querySelectorAll [''innerBoundaryIs'', ''LinearRing'', ''coordinates''] polygon)"

definition polygon_element :: "placemark_info \<Rightarrow> node \<Rightarrow> KmlElement option" where
  "polygon_element f polygon =
     (let rings = polygon_rings polygon
      in if rings \<noteq> [] then
           Some \<lparr>elem_id = pm_id f, elem_type = Polygon, name = pm_name f,
                 description = pm_description f, coordinates = Rings rings,
                 style = pm_style f, extendedData = extendedData_opt f,
                 metadata = Some \<lparr>meta_length = None,
                                  meta_area = Some (calculatePolygonArea (hd rings))\<rparr>\<rparr>
         else None)"

text \<open>The branch for \<open>MultiGeometry\<close>: the first geometry below it, no metadata.\<close>

definition multi_name :: "placemark_info \<Rightarrow> string option" where
  "multi_name f = (if truthy (pm_name f) then Some (the (pm_name f) @ '' (Multi)'') else None)"

definition multiGeometry_element :: "placemark_info \<Rightarrow> node \<Rightarrow> KmlElement option" where
  "multiGeometry_element f multiGeometry =
     (case querySelector [''Point''] multiGeometry of
        Some point \<Rightarrow>
          (let cs = parseCoordinates (text_of (querySelector [''coordinates''] point))
           in if cs \<noteq> [] then
                Some \<lparr>elem_id = pm_id f, elem_type = Point, name = multi_name f,
                      description = pm_description f, coordinates = Triple (hd cs),
                      style = pm_style f, extendedData = extendedData_opt f, metadata = None\<rparr>
              else None)
      | None \<Rightarrow>
          (case querySelector [''LineString''] multiGeometry of
             Some lineString \<Rightarrow>
               (let cs = parseCoordinates (text_of (querySelector [''coordinates''] lineString))
                in if cs \<noteq> [] then
                     Some \<lparr>elem_id = pm_id f, elem_type = LineString, name = multi_name f,
                           description = pm_description f, coordinates = Path cs,
                           style = pm_style f, extendedData = extendedData_opt f,
                           metadata = None\<rparr>
                   else None)
           | None \<Rightarrow>
               (case querySelector [''Polygon''] multiGeometry of
                  Some polygon \<Rightarrow>
                    (let outerBoundary =
                           text_of (querySelector [''outerBoundaryIs'', ''LinearRing'', ''coordinates'']
                                      polygon)
                     in if truthy outerBoundary then
                          (let cs = parseCoordinates outerBoundary
                           in if cs \<noteq> [] then
                                Some \<lparr>elem_id = pm_id f, elem_type = Polygon, name = multi_name f,
                                      description = pm_description f, coordinates = Rings [cs],
                                      style = pm_style f, extendedData = extendedData_opt f,
                                      metadata = None\<rparr>
                              else None)
                        else None)
                | None \<Rightarrow> None)))"

text \<open>
  The callback of \<open>placemarks.forEach\<close>: the element the placemark contributes, if any.
  The first geometry found wins, in the order Point, LineString, Polygon, MultiGeometry.
\<close>

definition placemark_element :: "string \<Rightarrow> style_table \<Rightarrow> node \<Rightarrow> KmlElement option" where
  "placemark_element uid styles placemark =
     (let f = placemark_fields uid styles placemark
      in case querySelector [''Point''] placemark of
           Some point \<Rightarrow> point_element f point
         | None \<Rightarrow>
             (case querySelector [''LineString''] placemark of
                Some lineString \<Rightarrow> lineString_element f lineString
              | None \<Rightarrow>
                  (case querySelector [''Polygon''] placemark of
                     Some polygon \<Rightarrow> polygon_element f polygon
                   | None \<Rightarrow>
                       (case querySelector [''MultiGeometry''] placemark of
                          Some multiGeometry \<Rightarrow> multiGeometry_element f multiGeometry
                        | None \<Rightarrow> None))))"

definition placemark_step ::
  "(nat \<Rightarrow> string) \<Rightarrow> style_table \<Rightarrow> KmlElement list \<Rightarrow> node \<Rightarrow> KmlElement list" where
  "placemark_step uuid styles els placemark =
     (case placemark_element (uuid (length els)) styles placemark of
        None \<Rightarrow> els
      | Some e \<Rightarrow> els @ [e])"

definition parsePlacemarks :: "(nat \<Rightarrow> string) \<Rightarrow> document \<Rightarrow> style_table \<Rightarrow> KmlElement list" where
  "parsePlacemarks uuid xmlDoc styles =
     foldl (placemark_step uuid styles) [] (doc_querySelectorAll [''Placemark''] xmlDoc)"

section \<open>Regular expressions of the parser\<close>

text \<open>\<open>s.indexOf(t)\<close>, as the text before and the text after the first occurrence of \<open>t\<close>.\<close>

primrec split_at_first :: "string \<Rightarrow> string \<Rightarrow> (string \<times> string) option" where
  "split_at_first [] t = (if t = [] then Some ([], []) else None)"
| "split_at_first (c # cs) t =
     (if prefix t (c # cs) then Some ([], drop (length t) (c # cs))
      else map_option (\<lambda>m. (c # fst m, snd m)) (split_at_first cs t))"

text \<open>
  The expressions \<open>/<T[^>]*>([\s\S]*?)<\/T>/\<close>, for a tag name \<open>T\<close>: the first group of
  the leftmost match, and the text after the match.  The match starts at the first \<open><T\<close>,
  runs to the first \<open>>\<close> after it and then to the first \<open></T>\<close> after that; when one of
  them is missing no later start matches either.
\<close>

definition regex_tag :: "string \<Rightarrow> string \<Rightarrow> (string \<times> string) option" where
  "regex_tag tag s =
     (case split_at_first s (''<'' @ tag) of
        None \<Rightarrow> None
      | Some m0 \<Rightarrow>
          (case split_at_first (snd m0) ''>'' of
             None \<Rightarrow> None
           | Some m1 \<Rightarrow> split_at_first (snd m1) (''</'' @ tag @ ''>'')))"

text \<open>\<open>kmlString.match(/<kml[^>]*>/)\<close>: the matched text.\<close>

definition regex_kml_tag :: "string \<Rightarrow> string option" where
  "regex_kml_tag s =
     (case split_at_first s ''<kml'' of
        None \<Rightarrow> None
      | Some m0 \<Rightarrow>
          (case split_at_first (snd m0) ''>'' of
             None \<Rightarrow> None
           | Some m1 \<Rightarrow> Some (''<kml'' @ fst m1 @ ''>'')))"

text \<open>
  The replacement text of \<open>s.replace(pattern, replacement)\<close> for a string pattern:
  \<open>$$\<close> is a dollar, \<open>$&\<close> the matched text, \<open>$`\<close> the text before the match and
  \<open>$'\<close> the text after it; there are no groups, so any other \<open>$\<close> stands for itself.
\<close>

fun get_substitution :: "string \<Rightarrow> string \<Rightarrow> string \<Rightarrow> string \<Rightarrow> string" where
  "get_substitution matched preceding following (c # d # r) =
     (if c = CHR ''$'' \<and> d = CHR ''$'' then CHR ''$'' # get_substitution matched preceding following r
      else if c = CHR ''$'' \<and> d = CHR ''&'' then matched @ get_substitution matched preceding following r
      else if c = CHR ''$'' \<and> d = CHR 0x60 then preceding @ get_substitution matched preceding following r
      else if c = CHR ''$'' \<and> d = CHR 0x27 then following @ get_substitution matched preceding following r
      else c # get_substitution matched preceding following (d # r))"
| "get_substitution matched preceding following r = r"

text \<open>\<open>s.replace(pattern, replacement)\<close> for a string pattern: the first occurrence only.\<close>

definition replace_first :: "string \<Rightarrow> string \<Rightarrow> string \<Rightarrow> string" where
  "replace_first s pattern replacement =
     (case split_at_first s pattern of
        None \<Rightarrow> s
      | Some m \<Rightarrow> fst m @ get_substitution pattern (fst m) (snd m) replacement @ snd m)"

section \<open>Namespace repair\<close>

definition KML_NAMESPACES :: "(string \<times> string) list" where
  "KML_NAMESPACES =
     [(''xmlns'', ''http://www.opengis.net/kml/2.2''),
      (''xmlns:xsi'', ''http://www.w3.org/2001/XMLSchema-instance''),
      (''xmlns:gx'', ''http://www.google.com/kml/ext/2.2''),
      (''xmlns:atom'', ''http://www.w3.org/2005/Atom''),
      (''xmlns:kml'', ''http://www.opengis.net/kml/2.2'')]"

text \<open>The callback of \<open>Object.entries(KML_NAMESPACES).forEach\<close>.\<close>

definition namespace_step :: "string \<Rightarrow> string \<Rightarrow> string \<times> string \<Rightarrow> string" where
  \<open>namespace_step kmlTag updatedTag e =
     (if \<not> includes_js kmlTag (fst e)
      then replace_first updatedTag ''>'' ('' '' @ fst e @ ''="'' @ snd e @ ''">'')
      else updatedTag)\<close>

definition preprocessKml :: "string \<Rightarrow> string" where
  \<open>preprocessKml kmlString =
     (if \<not> includes_js kmlString ''<kml''
      then ''<kml xmlns="http://www.opengis.net/kml/2.2">'' @ kmlString @ ''</kml>''
      else
        (case regex_kml_tag kmlString of
           None \<Rightarrow> kmlString
         | Some kmlTag \<Rightarrow>
             let updatedTag = foldl (namespace_step kmlTag) kmlTag KML_NAMESPACES
             in if updatedTag \<noteq> kmlTag then replace_first kmlString kmlTag updatedTag
                else kmlString))\<close>

section \<open>Salvage parser\<close>

definition parseCoordinatesText :: "string \<Rightarrow> KmlElementType \<Rightarrow> jsnum list list" where
  "parseCoordinatesText coordsText type = map coord_of_token (coord_tokens coordsText)"

definition fallback_style :: KmlStyle where
  "fallback_style =
     empty_style\<lparr>color := Some ''#3700ff'', fillColor := Some ''#42eedc'',
                 fillOpacity := Some (Num 0.2)\<rparr>"

text \<open>The geometry of a block: the first of Point, LineString, Polygon that matches.\<close>

definition fallback_geometry :: "string \<Rightarrow> (KmlElementType \<times> string) option" where
  "fallback_geometry placemarkContent =
     (case regex_tag ''Point'' placemarkContent of
        Some pointMatch \<Rightarrow> Some (Point, fst pointMatch)
      | None \<Rightarrow>
          (case regex_tag ''LineString'' placemarkContent of
             Some lineMatch \<Rightarrow> Some (LineString, fst lineMatch)
           | None \<Rightarrow>
               (case regex_tag ''Polygon'' placemarkContent of
                  Some polygonMatch \<Rightarrow> Some (Polygon, fst polygonMatch)
                | None \<Rightarrow> None)))"

text \<open>The body of the loop over the blocks: the element a block contributes, if any.\<close>

definition fallback_element :: "string \<Rightarrow> string \<Rightarrow> KmlElement option" where
  "fallback_element uid placemarkContent =
     (let name_m = map_option (\<lambda>m. trim (fst m)) (regex_tag ''name'' placemarkContent);
          description_m = map_option (\<lambda>m. trim (fst m)) (regex_tag ''description'' placemarkContent)
      in case fallback_geometry placemarkContent of
           None \<Rightarrow> None
         | Some g \<Rightarrow>
             (case regex_tag ''coordinates'' (snd g) of
                None \<Rightarrow> None
              | Some coordsMatch \<Rightarrow>
                  let coordsText = trim (fst coordsMatch);
                      cs = parseCoordinatesText coordsText (fst g)
                  in if cs \<noteq> [] then
                       Some \<lparr>elem_id = uid, elem_type = fst g, name = name_m,
                             description = description_m,
                             coordinates = (if fst g = Polygon then Rings [cs] else Path cs),
                             style = Some fallback_style, extendedData = None, metadata = None\<rparr>
                     else None))"

text \<open>
  The loop \<open>while ((match = placemarkRegex.exec(kmlString)) !== null)\<close>: with the flag
  \<open>g\<close> each search starts where the last match ended.
\<close>

function fallback_loop :: "(nat \<Rightarrow> string) \<Rightarrow> KmlElement list \<Rightarrow> string \<Rightarrow> KmlElement list" where
  "fallback_loop uuid els s =
     (case regex_tag ''Placemark'' s of
        None \<Rightarrow> els
      | Some m \<Rightarrow>
          fallback_loop uuid
            (case fallback_element (uuid (length els)) (fst m) of
               None \<Rightarrow> els
             | Some e \<Rightarrow> els @ [e])
            (snd m))"
  by pat_completeness auto
termination
proof (relation "measure (\<lambda>(uuid, els, s). length s)", simp, goal_cases)
  case (1 uuid els s m)
  have cut: "length a + length t \<le> length u" if "split_at_first u t = Some (b, a)" for u t b a
    using that
  proof (induction u arbitrary: b)
    case Nil
    then show ?case by (auto split: if_splits)
  next
    case (Cons c u)
    show ?case
    proof (cases "prefix t (c # u)")
      case True
      then have "a = drop (length t) (c # u)"
        using Cons.prems by simp
      moreover have "length t \<le> length (c # u)"
        using True by (rule prefix_length_le)
      ultimately show ?thesis by simp
    next
      case False
      then obtain b' where "split_at_first u t = Some (b', a)"
        using Cons.prems by auto
      from Cons.IH [OF this] show ?thesis by simp
    qed
  qed
  obtain m0 m1 where m0: "split_at_first s ''<Placemark'' = Some m0"
    and m1: "split_at_first (snd m0) ''>'' = Some m1"
    and m: "split_at_first (snd m1) ''</Placemark>'' = Some m"
    using 1 by (auto simp: regex_tag_def split: option.splits)
  have "length (snd m0) < length s"
    using cut [of s "''<Placemark''" "fst m0" "snd m0"] m0 by simp
  moreover have "length (snd m1) \<le> length (snd m0)"
    using cut [of "snd m0" "''>''" "fst m1" "snd m1"] m1 by simp
  moreover have "length (snd m) \<le> length (snd m1)"
    using cut [of "snd m1" "''</Placemark>''" "fst m" "snd m"] m by simp
  ultimately show ?case by simp
qed

definition fallbackParse :: "(nat \<Rightarrow> string) \<Rightarrow> string \<Rightarrow> KmlData" where
  "fallbackParse uuid kmlString =
     \<lparr>doc_name = None, doc_description = None, elements = fallback_loop uuid [] kmlString\<rparr>"

section \<open>Structured document parser\<close>

datatype error =
    InvalidKmlContent
  | NoFileProvided
  | NotAKmzFile
  | InvalidZipArchive
  | NoKmlFileInArchive
  | ExtractionFailed
  | ExtractedKmlEmpty

text \<open>The message of each error, as the source throws it.\<close>

fun message :: "error \<Rightarrow> string" where
  "message InvalidKmlContent = ''Invalid KML content: Empty or not a string''"
| "message NoFileProvided = ''No file provided''"
| "message NotAKmzFile = ''Not a KMZ file''"
| "message InvalidZipArchive = ''Invalid KMZ file: Not a valid ZIP archive''"
| "message NoKmlFileInArchive = ''No KML file found in the KMZ archive''"
| "message ExtractionFailed = ''Failed to extract KML content from KMZ file''"
| "message ExtractedKmlEmpty = ''Extracted KML file is empty''"

text \<open>The document assembled when the XML parse reported no error.\<close>

definition structured_document :: "(nat \<Rightarrow> string) \<Rightarrow> document \<Rightarrow> KmlData" where
  "structured_document uuid xmlDoc =
     (let kmlDoc = (case doc_querySelector [''kml'', ''Document''] xmlDoc of
                      Some d \<Rightarrow> Some d
                    | None \<Rightarrow> doc_querySelector [''Document''] xmlDoc);
          name_d = or_undefined (case kmlDoc of
                                   None \<Rightarrow> None
                                 | Some d \<Rightarrow> text_of (querySelector [''name''] d));
          description_d = or_undefined (case kmlDoc of
                                          None \<Rightarrow> None
                                        | Some d \<Rightarrow> text_of (querySelector [''description''] d));
          styles = parseStyles xmlDoc;
          els = parsePlacemarks uuid xmlDoc styles
      in \<lparr>doc_name = name_d, doc_description = description_d, elements = els\<rparr>)"

text \<open>
  \<open>parseKml\<close>.  The XML parser of the browser is the parameter \<open>parseFromString\<close>; it
  always returns a document, and reports an error as an element \<open>parsererror\<close> in it.
  A thrown error is \<open>Inl\<close>.
\<close>

definition parseKml ::
  "(string \<Rightarrow> document) \<Rightarrow> (nat \<Rightarrow> string) \<Rightarrow> string \<Rightarrow> error + KmlData" where
  "parseKml parseFromString uuid kmlString =
     (if kmlString = [] then Inl InvalidKmlContent
      else
        let processedKmlString = preprocessKml kmlString;
            xmlDoc = parseFromString processedKmlString;
            parserError = doc_querySelector [''parsererror''] xmlDoc
        in if parserError \<noteq> None then Inr (fallbackParse uuid kmlString)
           else Inr (structured_document uuid xmlDoc))"

section \<open>Archive unpacker\<close>

text \<open>\<open>s.toLowerCase()\<close> on code units below 256.\<close>

definition upper_chars :: string where
  "upper_chars = ''ABCDEFGHIJKLMNOPQRSTUVWXYZ'' @
     [CHR 0xC0, CHR 0xC1, CHR 0xC2, CHR 0xC3, CHR 0xC4, CHR 0xC5, CHR 0xC6, CHR 0xC7,
      CHR 0xC8, CHR 0xC9, CHR 0xCA, CHR 0xCB, CHR 0xCC, CHR 0xCD, CHR 0xCE, CHR 0xCF,
      CHR 0xD0, CHR 0xD1, CHR 0xD2, CHR 0xD3, CHR 0xD4, CHR 0xD5, CHR 0xD6,
      CHR 0xD8, CHR 0xD9, CHR 0xDA, CHR 0xDB, CHR 0xDC, CHR 0xDD, CHR 0xDE]"

definition lower_chars :: string where
  "lower_chars = ''abcdefghijklmnopqrstuvwxyz'' @
     [CHR 0xE0, CHR 0xE1, CHR 0xE2, CHR 0xE3, CHR 0xE4, CHR 0xE5, CHR 0xE6, CHR 0xE7,
      CHR 0xE8, CHR 0xE9, CHR 0xEA, CHR 0xEB, CHR 0xEC, CHR 0xED, CHR 0xEE, CHR 0xEF,
      CHR 0xF0, CHR 0xF1, CHR 0xF2, CHR 0xF3, CHR 0xF4, CHR 0xF5, CHR 0xF6,
      CHR 0xF8, CHR 0xF9, CHR 0xFA, CHR 0xFB, CHR 0xFC, CHR 0xFD, CHR 0xFE]"

definition lower_char :: "char \<Rightarrow> char" where
  "lower_char c = (case map_of (zip upper_chars lower_chars) c of None \<Rightarrow> c | Some d \<Rightarrow> d)"

definition toLowerCase :: "string \<Rightarrow> string" where
  "toLowerCase s = map lower_char s"

text \<open>
  The file the user picked, and the entries of the archive.  \<open>JSZip\<close> is outside the
  repository: \<open>loadAsync\<close> is a parameter that gives the entries of \<open>zipContents.files\<close>
  in the order of its keys, one entry per name, or \<open>None\<close> when the file is no ZIP archive.
  \<open>async_string\<close> is the text \<open>async("string")\<close> extracts, \<open>None\<close> when it fails.
\<close>

record 'b File =
  file_name :: string
  file_content :: 'b

record ZipObject =
  entry_name :: string
  dir :: bool
  async_string :: "string option"

text \<open>\<open>zipContents.files[filename]\<close> and \<open>zipContents.file(name)\<close>; the latter gives no folder.\<close>

definition files_at :: "ZipObject list \<Rightarrow> string \<Rightarrow> ZipObject option" where
  "files_at files filename = find (\<lambda>e. entry_name e = filename) files"

definition zip_file :: "ZipObject list \<Rightarrow> string \<Rightarrow> ZipObject option" where
  "zip_file files filename =
     (case files_at files filename of
        None \<Rightarrow> None
      | Some e \<Rightarrow> if dir e then None else Some e)"

definition kml_filenames :: "ZipObject list \<Rightarrow> string list" where
  "kml_filenames files =
     filter (\<lambda>filename. endsWith (toLowerCase filename) ''.kml''
                         \<and> (case files_at files filename of None \<Rightarrow> False | Some e \<Rightarrow> \<not> dir e))
            (map entry_name files)"

definition find_kml_file :: "ZipObject list \<Rightarrow> error + ZipObject" where
  "find_kml_file files =
     (case zip_file files ''doc.kml'' of
        Some kmlFile \<Rightarrow> Inr kmlFile
      | None \<Rightarrow>
          let kmlFiles = kml_filenames files
          in if kmlFiles = [] then Inl NoKmlFileInArchive
             else (case zip_file files (hd kmlFiles) of
                     None \<Rightarrow> Inl NoKmlFileInArchive
                   | Some kmlFile \<Rightarrow> Inr kmlFile))"

text \<open>
  \<open>parseKmz\<close>; the argument \<open>None\<close> is a missing file.  The images the source collects
  on the way are not part of what it returns and have no place in the model.
\<close>

definition parseKmz ::
  "('b \<Rightarrow> ZipObject list option) \<Rightarrow> (string \<Rightarrow> document) \<Rightarrow> (nat \<Rightarrow> string)
     \<Rightarrow> 'b File option \<Rightarrow> error + KmlData" where
  "parseKmz loadAsync parseFromString uuid file =
     (case file of
        None \<Rightarrow> Inl NoFileProvided
      | Some f \<Rightarrow>
          if \<not> endsWith (toLowerCase (file_name f)) ''.kmz'' then Inl NotAKmzFile
          else
            (case loadAsync (file_content f) of
               None \<Rightarrow> Inl InvalidZipArchive
             | Some files \<Rightarrow>
                 (case find_kml_file files of
                    Inl e \<Rightarrow> Inl e
                  | Inr kmlFile \<Rightarrow>
                      (case async_string kmlFile of
                         None \<Rightarrow> Inl ExtractionFailed
                       | Some kmlContent \<Rightarrow>
                           if kmlContent = [] \<or> trim kmlContent = [] then Inl ExtractedKmlEmpty
                           else parseKml parseFromString uuid kmlContent))))"

section \<open>Notions used in the statements\<close>

text \<open>The number read from field \<open>k\<close> of a token: \<open>Number.parseFloat(parts[k])\<close>.\<close>

definition token_field :: "string \<Rightarrow> nat \<Rightarrow> jsnum" where
  "token_field t k = parseFloat (nth_opt (split_on (CHR '','') t) k)"

text \<open>
  Sample inputs: the shared fields of a placemark without name, style or data, and a
  geometry node whose coordinates, and whose outer boundary, hold a given text.
\<close>

definition sample_fields :: placemark_info where
  "sample_fields =
     \<lparr>pm_id = ''id'', pm_name = None, pm_description = None, pm_style = None,
      pm_extendedData = []\<rparr>"

definition sample_geometry :: "string \<Rightarrow> node" where
  "sample_geometry s =
     ([''Placemark'', ''kml''],
      Element ''Geometry'' []
        [Element ''coordinates'' [] [Text s],
         Element ''outerBoundaryIs'' []
           [Element ''LinearRing'' [] [Element ''coordinates'' [] [Text s]]]])"

text \<open>
  What an element carries when its area is that of ring 0: rings, at least one, and as
  metadata the area \<open>calculatePolygonArea\<close> gives for the first ring alone.
\<close>

definition area_from_ring0 :: "KmlElement \<Rightarrow> bool" where
  "area_from_ring0 e =
     (case coordinates e of
        Rings rings \<Rightarrow>
          rings \<noteq> []
          \<and> metadata e = Some \<lparr>meta_length = None, meta_area = Some (calculatePolygonArea (hd rings))\<rparr>
      | _ \<Rightarrow> False)"

text \<open>
  Sample documents: a placemark with a polygon whose outer and inner boundary hold given
  texts (an empty text leaves the \<open>coordinates\<close> element empty), identifiers, and a
  placemark whose \<open>styleUrl\<close> names the id \<open>m\<close>.
\<close>

definition ring_element :: "string \<Rightarrow> string \<Rightarrow> xml" where
  "ring_element boundary s =
     Element boundary []
       [Element ''LinearRing'' []
          [Element ''coordinates'' [] (if s = [] then [] else [Text s])]]"

definition polygon_document :: "string \<Rightarrow> string \<Rightarrow> document" where
  "polygon_document outer inner =
     [Element ''kml'' []
        [Element ''Placemark'' []
           [Element ''Polygon'' []
              [ring_element ''outerBoundaryIs'' outer, ring_element ''innerBoundaryIs'' inner]]]]"

definition sample_uuid :: "nat \<Rightarrow> string" where
  "sample_uuid k = ''id-'' @ replicate k (CHR ''i'')"

text \<open>
  A style map that resolves to nothing in a table: no normal pair or no \<open>styleUrl\<close> in
  it, a \<open>styleUrl\<close> that does not start with \<open>#\<close>, or one that names no entry.
\<close>

definition unresolved_styleMap :: "style_table \<Rightarrow> node \<Rightarrow> bool" where
  "unresolved_styleMap styles styleMap =
     (case normal_styleUrl styleMap of
        None \<Rightarrow> True
      | Some u \<Rightarrow> \<not> startsWith u ''#'' \<or> styles (drop 1 u) = None)"

definition sample_placemark :: node where
  "sample_placemark =
     ([''Document'', ''kml''],
      Element ''Placemark'' [] [Element ''styleUrl'' [] [Text ''#m'']])"

text \<open>An entry that can serve as the document: a name ending in \<open>.kml\<close>, no folder.\<close>

definition is_kml_entry :: "ZipObject \<Rightarrow> bool" where
  "is_kml_entry e = (endsWith (toLowerCase (entry_name e)) ''.kml'' \<and> \<not> dir e)"

text \<open>
  Sample inputs: an archive without \<open>doc.kml\<close> whose first entry is a folder, and a file
  of a given name.
\<close>

definition sample_archive :: "ZipObject list" where
  "sample_archive =
     [\<lparr>entry_name = ''files/'', dir = True, async_string = None\<rparr>,
      \<lparr>entry_name = ''files/Map.KML'', dir = False, async_string = Some ''<kml></kml>''\<rparr>,
      \<lparr>entry_name = ''other.kml'', dir = False, async_string = Some ''<kml/>''\<rparr>]"

definition sample_file :: "string \<Rightarrow> nat File" where
  "sample_file n = \<lparr>file_name = n, file_content = 0\<rparr>"

text \<open>
  Sample inputs for the document parser.  A text whose only placemark sits in a comment,
  with the tree an XML parser builds from the repaired text: the root with its five
  declarations and the comment below it.  A text that is not well formed, and the document
  with which the parser of the browser reports an error.
\<close>

definition hidden_placemark_text :: string where
  \<open>hidden_placemark_text =
     ''<kml><!--<Placemark><Point><coordinates>1,2</coordinates></Point></Placemark>--></kml>''\<close>

definition hidden_placemark_document :: document where
  \<open>hidden_placemark_document =
     [Element ''kml''
        [(''xmlns'', ''http://www.opengis.net/kml/2.2''),
         (''xmlns:xsi'', ''http://www.w3.org/2001/XMLSchema-instance''),
         (''xmlns:gx'', ''http://www.google.com/kml/ext/2.2''),
         (''xmlns:atom'', ''http://www.w3.org/2005/Atom''),
         (''xmlns:kml'', ''http://www.opengis.net/kml/2.2'')]
        [Comment ''<Placemark><Point><coordinates>1,2</coordinates></Point></Placemark>'']]\<close>

definition parsererror_document :: document where
  "parsererror_document = [Element ''parsererror'' [] [Text ''error on line 1'']]"

definition hidden_placemark_parser :: "string \<Rightarrow> document" where
  "hidden_placemark_parser s =
     (if s = preprocessKml hidden_placemark_text then hidden_placemark_document
      else parsererror_document)"

definition broken_text :: string where
  \<open>broken_text =
     ''<kml><Placemark><Point><coordinates>1,2</coordinates></Point></Placemark>''\<close>

definition failing_parser :: "string \<Rightarrow> document" where
  "failing_parser s = parsererror_document"

text \<open>A number that is neither \<open>NaN\<close> nor an infinity.\<close>

definition is_finite :: "jsnum \<Rightarrow> bool" where
  "is_finite x = (case x of Num r \<Rightarrow> True | _ \<Rightarrow> False)"

text \<open>An angle in radians, as the source computes it: \<open>(x * Math.PI) / 180\<close>.\<close>

definition to_radians :: "arith \<Rightarrow> jsnum \<Rightarrow> jsnum" where
  "to_radians ar x = rdiv ar (rmul ar x (PI_d ar)) (Num 180)"

text \<open>
  Two properties of a double arithmetic.  It is odd when rounding and \<open>Math.sin\<close> commute
  with the change of sign, as rounding to nearest does.  It is anchored when 0 and 1 are
  rounded to themselves, \<open>\<pi>\<close> and every value between -1 and 1 are rounded to finite
  doubles, the cosine stays between -1 and 1, and \<open>Math.sin\<close>, \<open>Math.sqrt\<close> and
  \<open>Math.atan2\<close> are exact at \<open>sin 0\<close>, \<open>sqrt 0\<close>, \<open>sqrt 1\<close> and
  \<open>atan2 0 1\<close>.
\<close>

definition odd_arith :: "arith \<Rightarrow> bool" where
  "odd_arith ar =
     ((\<forall>x. round_d ar (- x) = jneg (round_d ar x)) \<and> (\<forall>x. sin_d ar (- x) = - sin_d ar x))"

definition anchored_arith :: "arith \<Rightarrow> bool" where
  "anchored_arith ar =
     (round_d ar 0 = Num 0 \<and> round_d ar 1 = Num 1
      \<and> is_finite (round_d ar pi)
      \<and> (\<forall>x. \<bar>x\<bar> \<le> 1 \<longrightarrow> is_finite (round_d ar x))
      \<and> sin_d ar 0 = 0
      \<and> (\<forall>x. \<bar>cos_d ar x\<bar> \<le> 1)
      \<and> sqrt_d ar 0 = 0 \<and> sqrt_d ar 1 = 1
      \<and> atan2_d ar 0 1 = 0)"

text \<open>Half the difference of two angles, in radians, as the source computes it.\<close>

definition half_delta :: "arith \<Rightarrow> jsnum \<Rightarrow> jsnum \<Rightarrow> jsnum" where
  "half_delta ar x y = rdiv ar (rdiv ar (rmul ar (rsub ar y x) (PI_d ar)) (Num 180)) (Num 2)"

text \<open>
  The table when the style map number \<open>k\<close> of the document is about to be processed:
  all styles are in, and the style maps before it.
\<close>

definition styles_before :: "document \<Rightarrow> nat \<Rightarrow> style_table" where
  "styles_before xmlDoc k =
     foldl styleMap_step
       (foldl style_step Map.empty (doc_querySelectorAll [''Style''] xmlDoc))
       (take k (doc_querySelectorAll [''StyleMap''] xmlDoc))"

text \<open>
  Sample documents: a style and a style map that share the id \<open>m\<close>, the normal pair of
  the map naming a style nobody defined; and the same with the style under another id.
\<close>

definition shared_id_document :: document where
  "shared_id_document =
     [Element ''kml'' []
        [Element ''Document'' []
           [Element ''Style'' [(''id'', ''m'')] [],
            Element ''StyleMap'' [(''id'', ''m'')]
              [Element ''Pair'' []
                 [Element ''key'' [] [Text ''normal''],
                  Element ''styleUrl'' [] [Text ''#missing'']]],
            Element ''Placemark'' [] [Element ''styleUrl'' [] [Text ''#m'']]]]]"

definition dangling_map_document :: document where
  "dangling_map_document =
     [Element ''kml'' []
        [Element ''Document'' []
           [Element ''Style'' [(''id'', ''s'')] [],
            Element ''StyleMap'' [(''id'', ''m'')]
              [Element ''Pair'' []
                 [Element ''key'' [] [Text ''normal''],
                  Element ''styleUrl'' [] [Text ''#missing'']]],
            Element ''Placemark'' [] [Element ''styleUrl'' [] [Text ''#m'']]]]]"

section \<open>Color codec: properties\<close>

text \<open>
  Claim C6.  An eight-character string \<open>aabbggrr\<close> is mapped to \<open>#rrggbb\<close>: the alpha pair
  is dropped and the channels come out in the order red, green, blue.  So \<open>ff0000ff\<close>
  gives \<open>#ff0000\<close> and \<open>801400aa\<close> gives \<open>#aa0014\<close>.  An absent input and an input
  of any other length give the default color \<open>#3700ff\<close>.
\<close>

theorem kmlColorToHex_codec:
  "kmlColorToHex (Some [a1, a2, b1, b2, g1, g2, r1, r2]) = [CHR ''#'', r1, r2, g1, g2, b1, b2]
   \<and> kmlColorToHex (Some ''ff0000ff'') = ''#ff0000''
   \<and> kmlColorToHex (Some ''801400aa'') = ''#aa0014''
   \<and> kmlColorToHex None = ''#3700ff''
   \<and> (length s \<noteq> 8 \<longrightarrow> kmlColorToHex (Some s) = ''#3700ff'')"
  by (simp add: kmlColorToHex_def substring_def)

theorem kmlColorToHex_codec_witness:
  "length ''fff'' \<noteq> 8 \<and> kmlColorToHex (Some ''fff'') = ''#3700ff''"
  using kmlColorToHex_codec [of _ _ _ _ _ _ _ _ "''fff''"] by simp

section \<open>Coordinate tokenizer: properties\<close>

lemmas pf_defs = coord_of_token_def nth_opt_def parseFloat_def parse_decimal_def is_space_def
  is_digit_def digits_val_def digit_val_def pow10_def parse_exponent_def isNaN_def

lemmas dom_defs = querySelector_def querySelectorAll_def descendants_def matches_def text_of_def

lemma coord_tokens_blank:
  assumes "\<forall>c\<in>set s. is_space c"
  shows "coord_tokens s = []"
proof -
  have "dropWhile is_space s = []"
    using assms by (induction s) simp_all
  then have "trim s = []"
    by (simp add: trim_def del: dropWhile_eq_Nil_conv)
  then show ?thesis
    by (simp add: coord_tokens_def)
qed

lemma length_coord_of_token: "length (coord_of_token t) = 3"
  by (simp add: coord_of_token_def Let_def)

lemma parseCoordinates_map: "parseCoordinates (Some s) = map coord_of_token (coord_tokens s)"
proof (cases "s = []")
  case True
  then show ?thesis
    using coord_tokens_blank [of s] by (simp add: parseCoordinates_def)
next
  case False
  then show ?thesis
    by (simp add: parseCoordinates_def)
qed

lemma coord_tokens_nonempty: "coord_tokens s \<noteq> [] \<Longrightarrow> s \<noteq> []"
  using coord_tokens_blank [of s] by auto

lemma parseCoordinates_nonempty:
  "coord_tokens s \<noteq> [] \<Longrightarrow> parseCoordinates (Some s) \<noteq> []"
  by (simp add: parseCoordinates_map)

lemma foldl_inner_ring_step_nonempty:
  "rings \<noteq> [] \<Longrightarrow> foldl inner_ring_step rings bs \<noteq> []"
  by (induction bs arbitrary: rings) (simp_all add: inner_ring_step_def Let_def)

text \<open>
  Claim C5.  The tokenizer is a total function whose result is always a list of triples,
  one per token: it has no failing branch.  An absent input, the empty text and a text of
  white space only give the empty list.
\<close>

theorem parseCoordinates_total:
  "parseCoordinates None = []
   \<and> parseCoordinates (Some []) = []
   \<and> ((\<forall>c\<in>set s. is_space c) \<longrightarrow> parseCoordinates (Some s) = [])
   \<and> length (parseCoordinates (Some s)) = length (coord_tokens s)
   \<and> (\<forall>t\<in>set (parseCoordinates (Some s)). length t = 3)"
proof (intro conjI)
  show "parseCoordinates None = []"
    by (simp add: parseCoordinates_def)
  show "parseCoordinates (Some []) = []"
    by (simp add: parseCoordinates_def)
  show "(\<forall>c\<in>set s. is_space c) \<longrightarrow> parseCoordinates (Some s) = []"
    by (simp add: parseCoordinates_map coord_tokens_blank)
  show "length (parseCoordinates (Some s)) = length (coord_tokens s)"
    by (simp add: parseCoordinates_map)
  show "\<forall>t\<in>set (parseCoordinates (Some s)). length t = 3"
    by (auto simp: parseCoordinates_map length_coord_of_token)
qed

theorem parseCoordinates_total_witness:
  "is_space (CHR '' '') \<and> parseCoordinates (Some '' '') = []
   \<and> map length (parseCoordinates (Some ''7,8 x'')) = [3, 3]
   \<and> parseCoordinates (Some ''7,8 x'') = [[Num 7, Num 8, Num 0], [Num 0, Num 0, Num 0]]"
proof -
  have blank: "\<forall>c\<in>set '' ''. is_space c"
    by (simp add: is_space_def)
  have val: "parseCoordinates (Some ''7,8 x'') = [[Num 7, Num 8, Num 0], [Num 0, Num 0, Num 0]]"
    by (simp add: parseCoordinates_def coord_tokens_def trim_def pf_defs)
  show ?thesis
    using parseCoordinates_total [of "'' ''"] parseCoordinates_total [of "''7,8 x''"] blank val
    by simp
qed

text \<open>
  Claim C4, as stated, fails: the token \<open>1,2,x\<close> has an altitude that does not parse,
  and it yields the triple \<open>(1, 2, NaN)\<close>, not \<open>(0, 0, 0)\<close>.
\<close>

theorem altitude_not_degraded_counterexample:
  "coord_tokens ''1,2,x'' = [''1,2,x'']
   \<and> isNaN (parseFloat (nth_opt (split_on (CHR '','') ''1,2,x'') 2))
   \<and> parseCoordinates (Some ''1,2,x'') = [[Num 1, Num 2, NaN]]
   \<and> parseCoordinates (Some ''1,2,x'') \<noteq> [[Num 0, Num 0, Num 0]]"
  by (simp add: parseCoordinates_def coord_tokens_def trim_def pf_defs)

text \<open>
  Claim C4, amended.  A token whose longitude or latitude does not parse yields
  \<open>(0, 0, 0)\<close>.  A token whose longitude and latitude parse yields them with the
  altitude as read: the number of the third field, \<open>NaN\<close> when it does not parse, and 0
  when there is no third field.  Every token yields one triple, so a geometry whose text
  has a token is never skipped: the point, the line and the polygon are emitted.
\<close>

theorem coord_of_token_degrades:
  "(isNaN (token_field t 0) \<or> isNaN (token_field t 1)
      \<longrightarrow> coord_of_token t = [Num 0, Num 0, Num 0])
   \<and> (\<not> isNaN (token_field t 0) \<and> \<not> isNaN (token_field t 1)
      \<longrightarrow> coord_of_token t =
            [token_field t 0, token_field t 1,
             if 2 < length (split_on (CHR '','') t) then token_field t 2 else Num 0])
   \<and> parseCoordinates (Some s) = map coord_of_token (coord_tokens s)
   \<and> (coord_tokens s \<noteq> [] \<and> text_of (querySelector [''coordinates''] g) = Some s
      \<longrightarrow> point_element f g \<noteq> None \<and> lineString_element f g \<noteq> None)
   \<and> (coord_tokens s \<noteq> []
        \<and> text_of (querySelector [''outerBoundaryIs'', ''LinearRing'', ''coordinates''] g) = Some s
      \<longrightarrow> polygon_element f g \<noteq> None)"
proof (intro conjI impI)
  assume "isNaN (token_field t 0) \<or> isNaN (token_field t 1)"
  then show "coord_of_token t = [Num 0, Num 0, Num 0]"
    by (auto simp: coord_of_token_def token_field_def Let_def)
next
  assume "\<not> isNaN (token_field t 0) \<and> \<not> isNaN (token_field t 1)"
  then show "coord_of_token t =
            [token_field t 0, token_field t 1,
             if 2 < length (split_on (CHR '','') t) then token_field t 2 else Num 0]"
    by (simp add: coord_of_token_def token_field_def Let_def)
next
  show "parseCoordinates (Some s) = map coord_of_token (coord_tokens s)"
    by (rule parseCoordinates_map)
next
  assume a: "coord_tokens s \<noteq> [] \<and> text_of (querySelector [''coordinates''] g) = Some s"
  then have "parseCoordinates (Some s) \<noteq> []"
    by (simp add: parseCoordinates_nonempty)
  then show "point_element f g \<noteq> None" "lineString_element f g \<noteq> None"
    using a by (simp_all add: point_element_def lineString_element_def Let_def)
next
  assume a: "coord_tokens s \<noteq> []
        \<and> text_of (querySelector [''outerBoundaryIs'', ''LinearRing'', ''coordinates''] g) = Some s"
  then have "parseCoordinates (Some s) \<noteq> []" and "s \<noteq> []"
    by (simp_all add: parseCoordinates_nonempty coord_tokens_nonempty)
  then have "outer_ring g \<noteq> []"
    using a by (simp add: outer_ring_def truthy_def Let_def)
  then have "polygon_rings g \<noteq> []"
    unfolding polygon_rings_def by (rule foldl_inner_ring_step_nonempty)
  then show "polygon_element f g \<noteq> None"
    by (simp add: polygon_element_def Let_def)
qed

theorem coord_of_token_degrades_witness:
  "(isNaN (token_field ''x,1'' 0) \<or> isNaN (token_field ''x,1'' 1))
   \<and> coord_of_token ''x,1'' = [Num 0, Num 0, Num 0]
   \<and> \<not> isNaN (token_field ''1,2,x'' 0) \<and> \<not> isNaN (token_field ''1,2,x'' 1)
   \<and> coord_of_token ''1,2,x'' = [Num 1, Num 2, NaN]
   \<and> coord_tokens ''x,1'' \<noteq> []
   \<and> text_of (querySelector [''coordinates''] (sample_geometry ''x,1'')) = Some ''x,1''
   \<and> text_of (querySelector [''outerBoundaryIs'', ''LinearRing'', ''coordinates'']
                (sample_geometry ''x,1'')) = Some ''x,1''
   \<and> point_element sample_fields (sample_geometry ''x,1'') \<noteq> None
   \<and> lineString_element sample_fields (sample_geometry ''x,1'') \<noteq> None
   \<and> polygon_element sample_fields (sample_geometry ''x,1'') \<noteq> None"
proof -
  have t1: "isNaN (token_field ''x,1'' 0)"
    by (simp add: token_field_def pf_defs)
  have t2: "\<not> isNaN (token_field ''1,2,x'' 0) \<and> \<not> isNaN (token_field ''1,2,x'' 1)"
    by (simp add: token_field_def pf_defs)
  have t3: "token_field ''1,2,x'' 0 = Num 1" "token_field ''1,2,x'' 1 = Num 2"
    "token_field ''1,2,x'' 2 = NaN" "length (split_on (CHR '','') ''1,2,x'') = 3"
    by (simp_all add: token_field_def pf_defs)
  have t4: "coord_tokens ''x,1'' \<noteq> []"
    by (simp add: coord_tokens_def trim_def is_space_def)
  have t5: "text_of (querySelector [''coordinates''] (sample_geometry ''x,1'')) = Some ''x,1''"
    by (simp add: sample_geometry_def dom_defs)
  have t6: "text_of (querySelector [''outerBoundaryIs'', ''LinearRing'', ''coordinates'']
                (sample_geometry ''x,1'')) = Some ''x,1''"
    by (simp add: sample_geometry_def dom_defs)
  show ?thesis
    using coord_of_token_degrades [of "''x,1''" "''x,1''" "sample_geometry ''x,1''" sample_fields]
      coord_of_token_degrades [of "''1,2,x''" "''x,1''" "sample_geometry ''x,1''" sample_fields]
      t1 t2 t3 t4 t5 t6
    by simp
qed

section \<open>Geodesic metrics: properties\<close>

lemma jneg_jneg: "jneg (jneg x) = x"
  by (cases x) simp_all

lemma inf_signed_minus: "inf_signed (- s) = jneg (inf_signed s)"
  by (simp add: inf_signed_def)

lemma jadd_commute: "jadd x y = jadd y x"
  by (cases x; cases y) simp_all

lemma jadd_jneg: "jadd (jneg x) (jneg y) = jneg (jadd x y)"
  by (cases x; cases y) simp_all

lemma jsignum_jneg: "jsignum (jneg x) = - jsignum x"
  by (cases x) (simp_all add: sgn_real_def)

lemma jmul_commute: "jmul x y = jmul y x"
  by (cases x; cases y) (simp_all add: mult.commute)

lemma jmul_jneg: "jmul (jneg x) y = jneg (jmul x y)"
  by (cases x; cases y) (simp_all add: inf_signed_def sgn_real_def)

lemma jdiv_jneg: "jdiv (jneg x) y = jneg (jdiv x y)"
  by (cases x; cases y) (simp_all add: inf_signed_def sgn_real_def)

lemma radd_commute: "radd ar x y = radd ar y x"
  by (cases x; cases y) (simp_all add: add.commute)

lemma rmul_commute: "rmul ar x y = rmul ar y x"
  by (cases x; cases y) (simp_all add: mult.commute)

lemma radd_jneg:
  assumes "odd_arith ar"
  shows "radd ar (jneg x) (jneg y) = jneg (radd ar x y)"
proof (cases x; cases y)
  fix a b
  assume "x = Num a" "y = Num b"
  moreover have "round_d ar (- a + - b) = jneg (round_d ar (a + b))"
    using assms by (metis odd_arith_def minus_add_distrib)
  ultimately show ?thesis by simp
qed simp_all

lemma rsub_swap:
  assumes "odd_arith ar"
  shows "rsub ar x y = jneg (rsub ar y x)"
proof -
  have "jneg (rsub ar y x) = radd ar (jneg y) (jneg (jneg x))"
    by (simp only: rsub_def radd_jneg [OF assms])
  also have "\<dots> = radd ar x (jneg y)"
    by (simp only: jneg_jneg radd_commute [of ar "jneg y" x])
  finally show ?thesis
    by (simp only: rsub_def)
qed

lemma rmul_jneg:
  assumes "odd_arith ar"
  shows "rmul ar (jneg x) y = jneg (rmul ar x y)"
proof (cases x; cases y)
  fix a b
  assume "x = Num a" "y = Num b"
  moreover have "round_d ar (- a * b) = jneg (round_d ar (a * b))"
    using assms by (metis odd_arith_def mult_minus_left)
  ultimately show ?thesis by simp
qed (simp_all add: inf_signed_def sgn_real_def)

lemma rmul_jneg_jneg:
  assumes "odd_arith ar"
  shows "rmul ar (jneg x) (jneg y) = rmul ar x y"
proof -
  have "rmul ar (jneg x) (jneg y) = jneg (rmul ar x (jneg y))"
    by (rule rmul_jneg [OF assms])
  also have "\<dots> = jneg (rmul ar (jneg y) x)"
    by (simp only: rmul_commute [of ar x "jneg y"])
  also have "\<dots> = jneg (jneg (rmul ar y x))"
    by (simp only: rmul_jneg [OF assms])
  also have "\<dots> = rmul ar x y"
    by (simp only: jneg_jneg rmul_commute [of ar y x])
  finally show ?thesis .
qed

lemma rdiv_jneg:
  assumes "odd_arith ar"
  shows "rdiv ar (jneg x) y = jneg (rdiv ar x y)"
proof (cases x; cases y)
  fix a b
  assume "x = Num a" "y = Num b"
  moreover have "round_d ar (- a / b) = jneg (round_d ar (a / b))"
    using assms by (metis odd_arith_def minus_divide_left)
  ultimately show ?thesis by (simp add: inf_signed_minus)
qed (simp_all add: inf_signed_def sgn_real_def)

lemma rsin_jneg:
  assumes "odd_arith ar"
  shows "rsin ar (jneg x) = jneg (rsin ar x)"
  using assms by (cases x) (simp_all add: odd_arith_def)

lemma half_delta_swap:
  assumes "odd_arith ar"
  shows "half_delta ar x y = jneg (half_delta ar y x)"
proof -
  have "rsub ar y x = jneg (rsub ar x y)"
    by (rule rsub_swap [OF assms])
  then show ?thesis
    by (simp only: half_delta_def rmul_jneg [OF assms] rdiv_jneg [OF assms])
qed

lemma sin_square_swap:
  assumes "odd_arith ar"
  shows "rmul ar (rsin ar (half_delta ar x y)) (rsin ar (half_delta ar x y))
       = rmul ar (rsin ar (half_delta ar y x)) (rsin ar (half_delta ar y x))"
proof -
  have "rsin ar (half_delta ar x y) = jneg (rsin ar (half_delta ar y x))"
    using half_delta_swap [OF assms, of x y] by (simp only: rsin_jneg [OF assms])
  then show ?thesis
    by (simp only: rmul_jneg_jneg [OF assms])
qed

lemma cross_term_swap:
  assumes "odd_arith ar"
  shows "rmul ar (rmul ar (rmul ar c1 c2) (rsin ar (half_delta ar x y))) (rsin ar (half_delta ar x y))
       = rmul ar (rmul ar (rmul ar c2 c1) (rsin ar (half_delta ar y x))) (rsin ar (half_delta ar y x))"
proof -
  let ?s = "rsin ar (half_delta ar y x)"
  let ?C = "rmul ar c2 c1"
  have s: "rsin ar (half_delta ar x y) = jneg ?s"
    using half_delta_swap [OF assms, of x y] by (simp only: rsin_jneg [OF assms])
  have "rmul ar ?C (jneg ?s) = jneg (rmul ar ?C ?s)"
    by (simp only: rmul_commute [of ar ?C "jneg ?s"] rmul_jneg [OF assms]
          rmul_commute [of ar ?s ?C])
  then have "rmul ar (rmul ar ?C (jneg ?s)) (jneg ?s) = rmul ar (rmul ar ?C ?s) ?s"
    by (simp only: rmul_jneg_jneg [OF assms])
  then show ?thesis
    by (simp only: s rmul_commute [of ar c1 c2])
qed

lemma calculateDistance_unfold:
  "calculateDistance ar lat1 lon1 lat2 lon2 =
     rmul ar (Num 6371)
       (rmul ar (Num 2)
          (ratan2 ar
             (rsqrt ar
                (radd ar
                   (rmul ar (rsin ar (half_delta ar lat1 lat2)) (rsin ar (half_delta ar lat1 lat2)))
                   (rmul ar
                      (rmul ar (rmul ar (rcos ar (to_radians ar lat1)) (rcos ar (to_radians ar lat2)))
                               (rsin ar (half_delta ar lon1 lon2)))
                      (rsin ar (half_delta ar lon1 lon2)))))
             (rsqrt ar
                (rsub ar (Num 1)
                   (radd ar
                      (rmul ar (rsin ar (half_delta ar lat1 lat2)) (rsin ar (half_delta ar lat1 lat2)))
                      (rmul ar
                         (rmul ar (rmul ar (rcos ar (to_radians ar lat1)) (rcos ar (to_radians ar lat2)))
                                  (rsin ar (half_delta ar lon1 lon2)))
                         (rsin ar (half_delta ar lon1 lon2))))))))"
  by (simp only: calculateDistance_def Let_def half_delta_def to_radians_def)

lemma calculateDistance_swap:
  assumes "odd_arith ar"
  shows "calculateDistance ar lat1 lon1 lat2 lon2 = calculateDistance ar lat2 lon2 lat1 lon1"
  by (simp only: calculateDistance_unfold sin_square_swap [OF assms, of lat1 lat2]
        cross_term_swap [OF assms, of "rcos ar (to_radians ar lat1)" "rcos ar (to_radians ar lat2)"
          lon1 lon2])

lemma is_finite_Num: "is_finite x \<Longrightarrow> \<exists>r. x = Num r"
  by (cases x) (simp_all add: is_finite_def)

lemma calculateDistance_same:
  assumes anch: "anchored_arith ar" and phi: "to_radians ar (Num lat) = Num phi"
  shows "calculateDistance ar (Num lat) (Num lon) (Num lat) (Num lon) = Num 0"
proof -
  have r0: "round_d ar 0 = Num 0" and r1: "round_d ar 1 = Num 1"
    and s0: "sin_d ar 0 = 0" and q0: "sqrt_d ar 0 = 0" and q1: "sqrt_d ar 1 = 1"
    and t0: "atan2_d ar 0 1 = 0"
    using anch by (simp_all add: anchored_arith_def)
  have "is_finite (PI_d ar)"
    using anch by (simp add: anchored_arith_def PI_d_def)
  then obtain p where p: "PI_d ar = Num p"
    using is_finite_Num by blast
  have h: "half_delta ar (Num z) (Num z) = Num 0" for z
    by (simp add: half_delta_def rsub_def p r0)
  have sq: "rmul ar (rsin ar (Num 0)) (rsin ar (Num 0)) = Num 0"
    by (simp add: s0 r0)
  have "\<bar>cos_d ar phi * cos_d ar phi\<bar> \<le> 1"
  proof -
    have "\<bar>cos_d ar phi\<bar> \<le> 1"
      using anch by (simp add: anchored_arith_def)
    then have "\<bar>cos_d ar phi\<bar> * \<bar>cos_d ar phi\<bar> \<le> 1 * 1"
      by (intro mult_mono) simp_all
    then show ?thesis
      by (simp add: abs_mult)
  qed
  then have "is_finite (round_d ar (cos_d ar phi * cos_d ar phi))"
    using anch by (simp add: anchored_arith_def)
  then obtain v where v: "round_d ar (cos_d ar phi * cos_d ar phi) = Num v"
    using is_finite_Num by blast
  have cross: "rmul ar (rmul ar (rmul ar (rcos ar (Num phi)) (rcos ar (Num phi))) (Num 0)) (Num 0)
                 = Num 0"
    by (simp add: v r0)
  show ?thesis
    by (simp add: calculateDistance_unfold h phi s0 r0 r1 q0 q1 t0 v rsub_def)
qed

lemma calculateDistance_not_finite:
  assumes "\<not> is_finite lat \<or> \<not> is_finite lon"
  shows "calculateDistance ar lat lon lat lon = NaN"
proof -
  have nan_l: "rmul ar NaN y = NaN" "rdiv ar NaN y = NaN" "radd ar NaN y = NaN" for y
    by (cases y; simp)+
  have nan_r: "rmul ar y NaN = NaN" "radd ar y NaN = NaN" for y
    by (cases y; simp)+
  have d: "half_delta ar x x = NaN" if "\<not> is_finite x" for x
    using that by (cases x) (simp_all add: is_finite_def half_delta_def rsub_def nan_l)
  have s: "rmul ar (rsin ar (half_delta ar x x)) (rsin ar (half_delta ar x x)) = NaN"
    if "\<not> is_finite x" for x
    by (simp only: d [OF that] rsin.simps nan_l)
  have c: "rmul ar (rmul ar y (rsin ar (half_delta ar x x))) (rsin ar (half_delta ar x x)) = NaN"
    if "\<not> is_finite x" for x y
    by (simp only: d [OF that] rsin.simps nan_r)
  have a: "radd ar
             (rmul ar (rsin ar (half_delta ar lat lat)) (rsin ar (half_delta ar lat lat)))
             (rmul ar
                (rmul ar (rmul ar (rcos ar (to_radians ar lat)) (rcos ar (to_radians ar lat)))
                         (rsin ar (half_delta ar lon lon)))
                (rsin ar (half_delta ar lon lon))) = NaN"
  proof (cases "is_finite lat")
    case False
    show ?thesis
      by (simp only: s [OF False] nan_l)
  next
    case True
    then have "\<not> is_finite lon"
      using assms by simp
    from c [OF this] show ?thesis
      by (simp only: nan_r)
  qed
  show ?thesis
    by (simp only: calculateDistance_unfold a rsub_def jneg.simps nan_r rsqrt.simps ratan2.simps
          jatan2.simps jsnum.case)
qed

text \<open>
  Claim C7, as stated, fails.  The tokenizer reads \<open>Infinity,0\<close> as the point of
  longitude \<open>Infinity\<close> and latitude 0, and the distance from that point to itself is
  \<open>NaN\<close>, not 0: the difference of the longitudes is \<open>Infinity - Infinity\<close>.  No
  rounding enters, so this is so in every double arithmetic.
\<close>

theorem infinite_point_distance_counterexample:
  "parseCoordinates (Some ''Infinity,0'') = [[Infinity, Num 0, Num 0]]
   \<and> calculateDistance exact_arith (Num 0) Infinity (Num 0) Infinity = NaN
   \<and> calculateDistance exact_arith (Num 0) Infinity (Num 0) Infinity \<noteq> Num 0"
proof -
  have "parseCoordinates (Some ''Infinity,0'') = [[Infinity, Num 0, Num 0]]"
    by (simp add: parseCoordinates_def coord_tokens_def trim_def pf_defs Let_def)
  moreover have "calculateDistance exact_arith (Num 0) Infinity (Num 0) Infinity = NaN"
    by (rule calculateDistance_not_finite) (simp add: is_finite_def)
  ultimately show ?thesis
    by simp
qed

text \<open>
  Claim C7, amended.  In every double arithmetic that is odd, the distance from \<open>a\<close> to
  \<open>b\<close> and the distance from \<open>b\<close> to \<open>a\<close> are the same value, for all arguments;
  the value may be \<open>NaN\<close>, which rounding can produce at finite points too, and then
  the comparison \<open>==\<close> of the two is false.  In every anchored arithmetic the distance
  from a point to itself is 0 when its coordinates are finite and its latitude in radians
  is a finite double.  In every arithmetic it is \<open>NaN\<close> when a coordinate of the point is
  not finite.
\<close>

theorem calculateDistance_mirror:
  "(odd_arith ar
      \<longrightarrow> calculateDistance ar lat1 lon1 lat2 lon2 = calculateDistance ar lat2 lon2 lat1 lon1)
   \<and> (anchored_arith ar \<and> to_radians ar (Num lat) = Num phi
      \<longrightarrow> calculateDistance ar (Num lat) (Num lon) (Num lat) (Num lon) = Num 0)
   \<and> (\<not> is_finite p \<or> \<not> is_finite q \<longrightarrow> calculateDistance ar p q p q = NaN)"
  using calculateDistance_swap calculateDistance_same calculateDistance_not_finite
  by blast

lemma odd_exact: "odd_arith exact_arith"
  by (simp add: odd_arith_def exact_arith_def)

lemma anchored_exact: "anchored_arith exact_arith"
  by (simp add: anchored_arith_def exact_arith_def is_finite_def atan2_def)

theorem calculateDistance_mirror_witness:
  "odd_arith exact_arith \<and> anchored_arith exact_arith
   \<and> to_radians exact_arith (Num 8) = Num (8 * pi / 180)
   \<and> calculateDistance exact_arith (Num 8) (Num (- 180)) (Num (- 8)) (Num 0)
       = calculateDistance exact_arith (Num (- 8)) (Num 0) (Num 8) (Num (- 180))
   \<and> calculateDistance exact_arith (Num 8) (Num (- 180)) (Num 8) (Num (- 180)) = Num 0
   \<and> \<not> is_finite Infinity
   \<and> calculateDistance exact_arith (Num 0) Infinity (Num 0) Infinity = NaN"
proof -
  have t: "to_radians exact_arith (Num 8) = Num (8 * pi / 180)"
    by (simp add: to_radians_def PI_d_def exact_arith_def)
  have i: "\<not> is_finite Infinity"
    by (simp add: is_finite_def)
  show ?thesis
    using calculateDistance_mirror [of exact_arith "Num 8" "Num (- 180)" "Num (- 8)" "Num 0"
        8 "8 * pi / 180" "- 180" "Num 0" Infinity]
      odd_exact anchored_exact t i
    by blast
qed

section \<open>Geometry extractor: properties\<close>

lemma descendants_in_subtree:
  "n \<in> set (subtree_elems anc x) \<Longrightarrow> set (descendants n) \<subseteq> set (subtree_elems anc x)"
proof (induction anc x rule: subtree_elems.induct)
  case (1 anc t as cs)
  show ?case
  proof (cases "n = (anc, Element t as cs)")
    case True
    then show ?thesis
      by (auto simp: descendants_def)
  next
    case False
    then obtain c where c: "c \<in> set cs" and n: "n \<in> set (subtree_elems (t # anc) c)"
      using 1 by auto
    from "1.IH" [OF c n] c show ?thesis
      by auto
  qed
qed simp_all

lemma descendants_trans:
  assumes "m \<in> set (descendants n)"
  shows "set (descendants m) \<subseteq> set (descendants n)"
proof (cases "snd n")
  case (Element t as cs)
  then obtain c where c: "c \<in> set cs" and m: "m \<in> set (subtree_elems (t # fst n) c)"
    using assms by (auto simp: descendants_def)
  have "set (descendants n) = (\<Union>c\<in>set cs. set (subtree_elems (t # fst n) c))"
    using Element by (simp add: descendants_def)
  with descendants_in_subtree [OF m] c show ?thesis
    by blast
next
  case (Text s)
  then show ?thesis using assms by (simp add: descendants_def)
next
  case (Comment s)
  then show ?thesis using assms by (simp add: descendants_def)
qed

lemma querySelector_Some:
  "querySelector sel n = Some m \<Longrightarrow> m \<in> set (descendants n) \<and> matches sel m"
proof -
  assume "querySelector sel n = Some m"
  then obtain es where "filter (matches sel) (descendants n) = m # es"
    by (auto simp: querySelector_def querySelectorAll_def split: list.splits)
  then have "m \<in> set (filter (matches sel) (descendants n))"
    by simp
  then show ?thesis by simp
qed

lemma querySelector_None:
  "querySelector sel n = None \<Longrightarrow> m \<in> set (descendants n) \<Longrightarrow> \<not> matches sel m"
  by (auto simp: querySelector_def querySelectorAll_def filter_empty_conv split: list.splits)

lemma querySelector_nested_None:
  assumes "querySelector sel n = None" and "m \<in> set (descendants n)"
  shows "querySelector sel m = None"
proof (cases "querySelector sel m")
  case None
  then show ?thesis .
next
  case (Some k)
  then have "k \<in> set (descendants m)" and "matches sel k"
    using querySelector_Some by blast+
  then have "k \<in> set (descendants n)"
    using descendants_trans [OF assms(2)] by blast
  with assms(1) \<open>matches sel k\<close> show ?thesis
    using querySelector_None by blast
qed

lemma multiGeometry_element_dead:
  assumes "querySelector [''Point''] pm = None"
    and "querySelector [''LineString''] pm = None"
    and "querySelector [''Polygon''] pm = None"
    and "querySelector [''MultiGeometry''] pm = Some mg"
  shows "multiGeometry_element f mg = None"
proof -
  have "mg \<in> set (descendants pm)"
    using assms(4) querySelector_Some by blast
  then have "querySelector [''Point''] mg = None" "querySelector [''LineString''] mg = None"
    "querySelector [''Polygon''] mg = None"
    using assms(1-3) querySelector_nested_None by blast+
  then show ?thesis
    by (simp add: multiGeometry_element_def)
qed

lemma placemark_element_polygon:
  assumes "placemark_element uid styles pm = Some e" and "elem_type e = Polygon"
  shows "area_from_ring0 e"
proof (cases "querySelector [''Point''] pm")
  case (Some point)
  then have "point_element (placemark_fields uid styles pm) point = Some e"
    using assms(1) by (simp add: placemark_element_def)
  then show ?thesis
    using assms(2) by (auto simp: point_element_def Let_def split: if_splits)
next
  case noPoint: None
  show ?thesis
  proof (cases "querySelector [''LineString''] pm")
    case (Some lineString)
    then have "lineString_element (placemark_fields uid styles pm) lineString = Some e"
      using assms(1) noPoint by (simp add: placemark_element_def)
    then show ?thesis
      using assms(2) by (auto simp: lineString_element_def Let_def split: if_splits)
  next
    case noLine: None
    show ?thesis
    proof (cases "querySelector [''Polygon''] pm")
      case (Some polygon)
      then have "polygon_element (placemark_fields uid styles pm) polygon = Some e"
        using assms(1) noPoint noLine by (simp add: placemark_element_def)
      then show ?thesis
        by (auto simp: polygon_element_def area_from_ring0_def Let_def split: if_splits)
    next
      case noPolygon: None
      show ?thesis
      proof (cases "querySelector [''MultiGeometry''] pm")
        case None
        then show ?thesis
          using assms(1) noPoint noLine noPolygon by (simp add: placemark_element_def)
      next
        case (Some mg)
        then have "multiGeometry_element (placemark_fields uid styles pm) mg = Some e"
          using assms(1) noPoint noLine noPolygon by (simp add: placemark_element_def)
        then show ?thesis
          using multiGeometry_element_dead [OF noPoint noLine noPolygon Some] by simp
      qed
    qed
  qed
qed

lemma foldl_placemark_step_polygon:
  assumes "\<forall>e\<in>set els. elem_type e = Polygon \<longrightarrow> area_from_ring0 e"
  shows "\<forall>e\<in>set (foldl (placemark_step uuid styles) els pms).
           elem_type e = Polygon \<longrightarrow> area_from_ring0 e"
  using assms
proof (induction pms arbitrary: els)
  case Nil
  then show ?case by simp
next
  case (Cons pm pms)
  have "\<forall>e\<in>set (placemark_step uuid styles els pm). elem_type e = Polygon \<longrightarrow> area_from_ring0 e"
    using Cons.prems placemark_element_polygon
    by (auto simp: placemark_step_def split: option.splits)
  from Cons.IH [OF this] show ?case by simp
qed

text \<open>
  Claim C8.  A ring of fewer than three points has area 0.  Every polygon element that
  \<open>parsePlacemarks\<close> emits has at least one ring and carries as its area the value
  \<open>calculatePolygonArea\<close> gives for ring 0 alone: no other ring enters it.  (The branch
  for \<open>MultiGeometry\<close>, which attaches no metadata, is reached only when the placemark has
  no geometry below it at all, and then emits nothing.)
\<close>

theorem polygon_area_ring0:
  "(length ring < 3 \<longrightarrow> calculatePolygonArea ring = Num 0)
   \<and> (\<forall>e\<in>set (parsePlacemarks uuid xmlDoc styles).
         elem_type e = Polygon \<longrightarrow> area_from_ring0 e)"
proof
  show "length ring < 3 \<longrightarrow> calculatePolygonArea ring = Num 0"
    by (simp add: calculatePolygonArea_def)
  show "\<forall>e\<in>set (parsePlacemarks uuid xmlDoc styles). elem_type e = Polygon \<longrightarrow> area_from_ring0 e"
    unfolding parsePlacemarks_def by (rule foldl_placemark_step_polygon) simp
qed

lemmas doc_defs = doc_querySelectorAll_def doc_querySelector_def doc_elems_def
  polygon_document_def ring_element_def

lemmas placemark_defs = parsePlacemarks_def placemark_step_def placemark_element_def
  placemark_fields_def placemark_style_def polygon_element_def polygon_rings_def outer_ring_def
  inner_ring_step_def truthy_def or_undefined_def extendedData_opt_def

lemmas token_defs = parseCoordinates_def coord_tokens_def trim_def

theorem polygon_area_ring0_witness:
  "length [[Num 0, Num 0, Num 0], [Num 1, Num 1, Num 0]] < 3
   \<and> calculatePolygonArea [[Num 0, Num 0, Num 0], [Num 1, Num 1, Num 0]] = Num 0
   \<and> map elem_type
         (parsePlacemarks sample_uuid (polygon_document ''0,0 4,0 4,4 0,0'' ''1,1 2,1 2,2 1,1'')
            Map.empty) = [Polygon]
   \<and> map area_from_ring0
         (parsePlacemarks sample_uuid (polygon_document ''0,0 4,0 4,4 0,0'' ''1,1 2,1 2,2 1,1'')
            Map.empty) = [True]
   \<and> map coordinates
         (parsePlacemarks sample_uuid (polygon_document ''0,0 4,0 4,4 0,0'' ''1,1 2,1 2,2 1,1'')
            Map.empty) =
       [Rings [[[Num 0, Num 0, Num 0], [Num 4, Num 0, Num 0], [Num 4, Num 4, Num 0],
                [Num 0, Num 0, Num 0]],
               [[Num 1, Num 1, Num 0], [Num 2, Num 1, Num 0], [Num 2, Num 2, Num 0],
                [Num 1, Num 1, Num 0]]]]
   \<and> map metadata
         (parsePlacemarks sample_uuid (polygon_document ''0,0 4,0 4,4 0,0'' ''1,1 2,1 2,2 1,1'')
            Map.empty) =
       [Some \<lparr>meta_length = None,
              meta_area = Some (calculatePolygonArea
                [[Num 0, Num 0, Num 0], [Num 4, Num 0, Num 0], [Num 4, Num 4, Num 0],
                 [Num 0, Num 0, Num 0]])\<rparr>]"
proof -
  have els: "parsePlacemarks sample_uuid
               (polygon_document ''0,0 4,0 4,4 0,0'' ''1,1 2,1 2,2 1,1'') Map.empty =
     [\<lparr>elem_id = ''id-'', elem_type = Polygon, name = None, description = None,
       coordinates =
         Rings [[[Num 0, Num 0, Num 0], [Num 4, Num 0, Num 0], [Num 4, Num 4, Num 0],
                 [Num 0, Num 0, Num 0]],
                [[Num 1, Num 1, Num 0], [Num 2, Num 1, Num 0], [Num 2, Num 2, Num 0],
                 [Num 1, Num 1, Num 0]]],
       style = None, extendedData = None,
       metadata = Some \<lparr>meta_length = None,
                        meta_area = Some (calculatePolygonArea
                          [[Num 0, Num 0, Num 0], [Num 4, Num 0, Num 0], [Num 4, Num 4, Num 0],
                           [Num 0, Num 0, Num 0]])\<rparr>\<rparr>]"
    by (simp add: doc_defs dom_defs placemark_defs token_defs pf_defs sample_uuid_def Let_def)
  show ?thesis
    using polygon_area_ring0 [of "[[Num 0, Num 0, Num 0], [Num 1, Num 1, Num 0]]" sample_uuid
        "polygon_document ''0,0 4,0 4,4 0,0'' ''1,1 2,1 2,2 1,1''" Map.empty]
    by (simp add: els)
qed

text \<open>
  Claim C2 against the code.  A placemark whose polygon has an outer boundary without
  coordinates and a hole with three points is not skipped: the element is emitted, the
  hole is its ring 0 and the area is computed from the hole.
\<close>

theorem hole_only_polygon_emitted:
  "parseCoordinates
     (text_of (doc_querySelector [''outerBoundaryIs'', ''LinearRing'', ''coordinates'']
                 (polygon_document [] ''0,0 1,0 1,1''))) = []
   \<and> parsePlacemarks sample_uuid (polygon_document [] ''0,0 1,0 1,1'') Map.empty =
     [\<lparr>elem_id = ''id-'', elem_type = Polygon, name = None, description = None,
       coordinates = Rings [[[Num 0, Num 0, Num 0], [Num 1, Num 0, Num 0], [Num 1, Num 1, Num 0]]],
       style = None, extendedData = None,
       metadata = Some \<lparr>meta_length = None,
                        meta_area = Some (calculatePolygonArea
                          [[Num 0, Num 0, Num 0], [Num 1, Num 0, Num 0], [Num 1, Num 1, Num 0]])\<rparr>\<rparr>]"
  by (simp add: doc_defs dom_defs placemark_defs token_defs pf_defs sample_uuid_def Let_def)

section \<open>Style resolver: properties\<close>

lemma style_step_other:
  "getAttribute s ''id'' \<noteq> Some i \<Longrightarrow> style_step styles s i = styles i"
  by (cases "getAttribute s ''id''") (auto simp: style_step_def truthy_def Let_def)

lemma style_step_keeps: "styles i \<noteq> None \<Longrightarrow> style_step styles s i \<noteq> None"
  by (simp add: style_step_def Let_def)

lemma style_step_sets:
  "getAttribute s ''id'' = Some i \<Longrightarrow> i \<noteq> [] \<Longrightarrow> style_step styles s i \<noteq> None"
  by (simp add: style_step_def truthy_def Let_def)

lemma styleMap_step_other:
  "getAttribute sm ''id'' \<noteq> Some i \<Longrightarrow> styleMap_step styles sm i = styles i"
  by (cases "getAttribute sm ''id''")
     (auto simp: styleMap_step_def truthy_def Let_def split: option.splits)

lemma styleMap_step_keeps: "styles i \<noteq> None \<Longrightarrow> styleMap_step styles sm i \<noteq> None"
  by (auto simp: styleMap_step_def Let_def split: option.splits)

lemma styleMap_step_unresolved:
  "unresolved_styleMap styles sm \<Longrightarrow> styleMap_step styles sm = styles"
  by (auto simp: unresolved_styleMap_def styleMap_step_def truthy_def Let_def
        split: option.splits)

lemma foldl_style_step_absent:
  "\<forall>s\<in>set ss. getAttribute s ''id'' \<noteq> Some i \<Longrightarrow> styles i = None
     \<Longrightarrow> foldl style_step styles ss i = None"
  by (induction ss arbitrary: styles) (simp_all add: style_step_other)

lemma foldl_style_step_keeps:
  "styles i \<noteq> None \<Longrightarrow> foldl style_step styles ss i \<noteq> None"
proof (induction ss arbitrary: styles)
  case Nil
  then show ?case by simp
next
  case (Cons s ss)
  have "style_step styles s i \<noteq> None"
    using Cons.prems by (rule style_step_keeps [of styles i s])
  then have "foldl style_step (style_step styles s) ss i \<noteq> None"
    by (rule Cons.IH [of "style_step styles s"])
  then show ?case
    by simp
qed

lemma foldl_style_step_present:
  "\<exists>s\<in>set ss. getAttribute s ''id'' = Some i \<Longrightarrow> i \<noteq> []
     \<Longrightarrow> foldl style_step styles ss i \<noteq> None"
proof (induction ss arbitrary: styles)
  case Nil
  then show ?case by simp
next
  case (Cons s ss)
  show ?case
  proof (cases "getAttribute s ''id'' = Some i")
    case True
    then have "style_step styles s i \<noteq> None"
      using Cons.prems(2) by (rule style_step_sets)
    then show ?thesis
      by (simp add: foldl_style_step_keeps)
  next
    case False
    then have "\<exists>s\<in>set ss. getAttribute s ''id'' = Some i"
      using Cons.prems(1) by auto
    from Cons.IH [OF this Cons.prems(2)] show ?thesis
      by simp
  qed
qed

lemma foldl_styleMap_step_keeps:
  "styles i \<noteq> None \<Longrightarrow> foldl styleMap_step styles sms i \<noteq> None"
proof (induction sms arbitrary: styles)
  case Nil
  then show ?case by simp
next
  case (Cons sm sms)
  have "styleMap_step styles sm i \<noteq> None"
    using Cons.prems by (rule styleMap_step_keeps [of styles i sm])
  then have "foldl styleMap_step (styleMap_step styles sm) sms i \<noteq> None"
    by (rule Cons.IH [of "styleMap_step styles sm"])
  then show ?case
    by simp
qed

lemma styles_before_Suc:
  assumes "k < length (doc_querySelectorAll [''StyleMap''] xmlDoc)"
  shows "styles_before xmlDoc (Suc k)
       = styleMap_step (styles_before xmlDoc k) (doc_querySelectorAll [''StyleMap''] xmlDoc ! k)"
  using assms by (simp add: styles_before_def take_Suc_conv_app_nth)

lemma styles_before_all:
  "styles_before xmlDoc (length (doc_querySelectorAll [''StyleMap''] xmlDoc)) = parseStyles xmlDoc"
  by (simp add: styles_before_def parseStyles_def)

lemma styles_before_absent:
  assumes noStyle: "\<forall>s\<in>set (doc_querySelectorAll [''Style''] xmlDoc). getAttribute s ''id'' \<noteq> Some i"
    and unres: "\<forall>k<length (doc_querySelectorAll [''StyleMap''] xmlDoc).
        getAttribute (doc_querySelectorAll [''StyleMap''] xmlDoc ! k) ''id'' = Some i
        \<longrightarrow> unresolved_styleMap (styles_before xmlDoc k)
              (doc_querySelectorAll [''StyleMap''] xmlDoc ! k)"
  shows "k \<le> length (doc_querySelectorAll [''StyleMap''] xmlDoc) \<Longrightarrow> styles_before xmlDoc k i = None"
proof (induction k)
  case 0
  show ?case
    using foldl_style_step_absent [OF noStyle, of Map.empty] by (simp add: styles_before_def)
next
  case (Suc k)
  then have k: "k < length (doc_querySelectorAll [''StyleMap''] xmlDoc)"
    and ih: "styles_before xmlDoc k i = None"
    by simp_all
  let ?sm = "doc_querySelectorAll [''StyleMap''] xmlDoc ! k"
  show ?case
  proof (cases "getAttribute ?sm ''id'' = Some i")
    case True
    then have "unresolved_styleMap (styles_before xmlDoc k) ?sm"
      using unres k by blast
    then show ?thesis
      using ih by (simp add: styles_before_Suc [OF k] styleMap_step_unresolved)
  next
    case False
    then show ?thesis
      using ih by (simp add: styles_before_Suc [OF k] styleMap_step_other)
  qed
qed

lemma placemark_style_lookup:
  "text_of (querySelector [''styleUrl''] placemark) = Some (''#'' @ i)
     \<Longrightarrow> placemark_style styles placemark = styles i"
  by (simp add: placemark_style_def truthy_def startsWith_def Let_def)

text \<open>
  Claim C9, as stated, fails.  A style and a style map share the id \<open>m\<close>, and the
  normal pair of the map names a style that is not in the table.  The map makes no entry,
  but the table has the entry of the style under \<open>m\<close>, and the placemark that refers
  to \<open>#m\<close> gets that style, not an absent one.
\<close>

theorem shared_id_gets_style_counterexample:
  "map (\<lambda>sm. getAttribute sm ''id'') (doc_querySelectorAll [''StyleMap''] shared_id_document)
     = [Some ''m'']
   \<and> unresolved_styleMap (styles_before shared_id_document 0)
        (doc_querySelectorAll [''StyleMap''] shared_id_document ! 0)
   \<and> parseStyles shared_id_document ''m'' = Some empty_style
   \<and> map (placemark_style (parseStyles shared_id_document))
        (doc_querySelectorAll [''Placemark''] shared_id_document) = [Some empty_style]"
  by (simp add: shared_id_document_def styles_before_def parseStyles_def unresolved_styleMap_def
        normal_styleUrl_def style_step_def styleMap_step_def line_style_def poly_style_def
        icon_style_def getAttribute_def placemark_style_def truthy_def startsWith_def
        doc_querySelectorAll_def doc_elems_def dom_defs Let_def)

text \<open>
  Claim C9, amended.  A style map whose normal pair has no \<open>styleUrl\<close>, or one that
  does not start with \<open>#\<close>, or one that names no entry of the table at that moment,
  leaves the table as it is: it makes no entry, and the step has no failing branch.  When
  every style map that carries an id is of this kind at the moment it is processed, the
  final table has no entry for the id if no style carries the id; if a style carries the
  id, the table has an entry for it.  A placemark whose \<open>styleUrl\<close> is \<open>#\<close> and the id
  gets what the table holds for the id: no style in the first case, a style in the second.
\<close>

theorem unresolved_styleMap_no_entry:
  "(unresolved_styleMap styles styleMap \<longrightarrow> styleMap_step styles styleMap = styles)
   \<and> ((\<forall>s\<in>set (doc_querySelectorAll [''Style''] xmlDoc). getAttribute s ''id'' \<noteq> Some i)
        \<and> (\<forall>k<length (doc_querySelectorAll [''StyleMap''] xmlDoc).
              getAttribute (doc_querySelectorAll [''StyleMap''] xmlDoc ! k) ''id'' = Some i
              \<longrightarrow> unresolved_styleMap (styles_before xmlDoc k)
                    (doc_querySelectorAll [''StyleMap''] xmlDoc ! k))
      \<longrightarrow> parseStyles xmlDoc i = None)
   \<and> ((\<exists>s\<in>set (doc_querySelectorAll [''Style''] xmlDoc). getAttribute s ''id'' = Some i) \<and> i \<noteq> []
      \<longrightarrow> parseStyles xmlDoc i \<noteq> None)
   \<and> (text_of (querySelector [''styleUrl''] placemark) = Some (''#'' @ i)
      \<longrightarrow> placemark_style (parseStyles xmlDoc) placemark = parseStyles xmlDoc i)"
proof (intro conjI impI)
  assume "unresolved_styleMap styles styleMap"
  then show "styleMap_step styles styleMap = styles"
    by (rule styleMap_step_unresolved)
next
  assume a: "(\<forall>s\<in>set (doc_querySelectorAll [''Style''] xmlDoc). getAttribute s ''id'' \<noteq> Some i)
        \<and> (\<forall>k<length (doc_querySelectorAll [''StyleMap''] xmlDoc).
              getAttribute (doc_querySelectorAll [''StyleMap''] xmlDoc ! k) ''id'' = Some i
              \<longrightarrow> unresolved_styleMap (styles_before xmlDoc k)
                    (doc_querySelectorAll [''StyleMap''] xmlDoc ! k))"
  have "styles_before xmlDoc (length (doc_querySelectorAll [''StyleMap''] xmlDoc)) i = None"
    using a by (intro styles_before_absent) simp_all
  then show "parseStyles xmlDoc i = None"
    by (simp only: styles_before_all)
next
  assume "(\<exists>s\<in>set (doc_querySelectorAll [''Style''] xmlDoc). getAttribute s ''id'' = Some i) \<and> i \<noteq> []"
  then have "foldl style_step Map.empty (doc_querySelectorAll [''Style''] xmlDoc) i \<noteq> None"
    by (intro foldl_style_step_present) simp_all
  then show "parseStyles xmlDoc i \<noteq> None"
    unfolding parseStyles_def by (rule foldl_styleMap_step_keeps)
next
  assume "text_of (querySelector [''styleUrl''] placemark) = Some (''#'' @ i)"
  then show "placemark_style (parseStyles xmlDoc) placemark = parseStyles xmlDoc i"
    by (rule placemark_style_lookup)
qed

lemmas style_defs = styles_before_def parseStyles_def unresolved_styleMap_def
  normal_styleUrl_def style_step_def styleMap_step_def line_style_def poly_style_def
  icon_style_def getAttribute_def placemark_style_def truthy_def startsWith_def
  doc_querySelectorAll_def doc_elems_def

theorem unresolved_styleMap_no_entry_witness:
  "map (\<lambda>s. getAttribute s ''id'') (doc_querySelectorAll [''Style''] dangling_map_document)
     = [Some ''s'']
   \<and> map (\<lambda>sm. getAttribute sm ''id'') (doc_querySelectorAll [''StyleMap''] dangling_map_document)
     = [Some ''m'']
   \<and> unresolved_styleMap (styles_before dangling_map_document 0)
        (doc_querySelectorAll [''StyleMap''] dangling_map_document ! 0)
   \<and> styleMap_step (styles_before dangling_map_document 0)
        (doc_querySelectorAll [''StyleMap''] dangling_map_document ! 0)
       = styles_before dangling_map_document 0
   \<and> parseStyles dangling_map_document ''m'' = None
   \<and> parseStyles dangling_map_document ''s'' \<noteq> None
   \<and> text_of (querySelector [''styleUrl''] sample_placemark) = Some (''#'' @ ''m'')
   \<and> placemark_style (parseStyles dangling_map_document) sample_placemark = None"
proof -
  let ?D = dangling_map_document
  let ?sm = "doc_querySelectorAll [''StyleMap''] ?D ! 0"
  have ids: "map (\<lambda>s. getAttribute s ''id'') (doc_querySelectorAll [''Style''] ?D) = [Some ''s'']"
    by (simp add: dangling_map_document_def style_defs dom_defs)
  have mids: "map (\<lambda>sm. getAttribute sm ''id'') (doc_querySelectorAll [''StyleMap''] ?D)
      = [Some ''m'']"
    by (simp add: dangling_map_document_def style_defs dom_defs)
  have unres: "unresolved_styleMap (styles_before ?D 0) ?sm"
    by (simp add: dangling_map_document_def style_defs dom_defs Let_def)
  have t: "text_of (querySelector [''styleUrl''] sample_placemark) = Some (''#'' @ ''m'')"
    by (simp add: sample_placemark_def dom_defs)
  have h1: "\<forall>s\<in>set (doc_querySelectorAll [''Style''] ?D). getAttribute s ''id'' \<noteq> Some ''m''"
  proof
    fix s
    assume "s \<in> set (doc_querySelectorAll [''Style''] ?D)"
    then have "getAttribute s ''id'' \<in> set (map (\<lambda>s. getAttribute s ''id'')
                 (doc_querySelectorAll [''Style''] ?D))"
      by simp
    then show "getAttribute s ''id'' \<noteq> Some ''m''"
      unfolding ids by simp
  qed
  have len: "length (doc_querySelectorAll [''StyleMap''] ?D) = 1"
    using arg_cong [OF mids, of length] by simp
  have h2: "\<forall>k<length (doc_querySelectorAll [''StyleMap''] ?D).
              getAttribute (doc_querySelectorAll [''StyleMap''] ?D ! k) ''id'' = Some ''m''
              \<longrightarrow> unresolved_styleMap (styles_before ?D k)
                    (doc_querySelectorAll [''StyleMap''] ?D ! k)"
    using unres by (simp add: len)
  have h3: "\<exists>s\<in>set (doc_querySelectorAll [''Style''] ?D). getAttribute s ''id'' = Some ''s''"
  proof -
    have "Some ''s'' \<in> set (map (\<lambda>s. getAttribute s ''id'') (doc_querySelectorAll [''Style''] ?D))"
      unfolding ids by simp
    then show ?thesis by auto
  qed
  note m = unresolved_styleMap_no_entry [of "styles_before ?D 0" ?sm ?D "''m''" sample_placemark]
  note s = unresolved_styleMap_no_entry [of "styles_before ?D 0" ?sm ?D "''s''" sample_placemark]
  have r1: "styleMap_step (styles_before ?D 0) ?sm = styles_before ?D 0"
    using m unres by blast
  have r2: "parseStyles ?D ''m'' = None"
    using m h1 h2 by blast
  have r3: "parseStyles ?D ''s'' \<noteq> None"
    using s h3 by blast
  have r4: "placemark_style (parseStyles ?D) sample_placemark = None"
    using m t r2 by simp
  show ?thesis
    using ids mids unres r1 r2 r3 t r4 by blast
qed

section \<open>Archive unpacker: properties\<close>

lemma files_at_distinct:
  "distinct (map entry_name files) \<Longrightarrow> e \<in> set files \<Longrightarrow> files_at files (entry_name e) = Some e"
  unfolding files_at_def
  by (induction files) (auto simp: image_iff)

lemma kml_filenames_distinct:
  assumes "distinct (map entry_name files)"
  shows "kml_filenames files = map entry_name (filter is_kml_entry files)"
proof -
  have "filter ((\<lambda>filename. endsWith (toLowerCase filename) ''.kml''
                  \<and> (case files_at files filename of None \<Rightarrow> False | Some e \<Rightarrow> \<not> dir e))
                \<circ> entry_name) files
        = filter is_kml_entry files"
    by (rule filter_cong) (auto simp: is_kml_entry_def files_at_distinct [OF assms])
  then show ?thesis
    by (simp add: kml_filenames_def filter_map)
qed

lemma find_filter_hd: "find P xs = (case filter P xs of [] \<Rightarrow> None | x # ys \<Rightarrow> Some x)"
  by (induction xs) auto

lemma find_kml_file_distinct:
  assumes "distinct (map entry_name files)"
  shows "find_kml_file files =
     (case zip_file files ''doc.kml'' of
        Some k \<Rightarrow> Inr k
      | None \<Rightarrow> (case find is_kml_entry files of
                   Some k \<Rightarrow> Inr k
                 | None \<Rightarrow> Inl NoKmlFileInArchive))"
proof (cases "zip_file files ''doc.kml''")
  case (Some k)
  then show ?thesis by (simp add: find_kml_file_def)
next
  case None
  show ?thesis
  proof (cases "filter is_kml_entry files")
    case Nil
    then show ?thesis
      using None by (simp add: find_kml_file_def kml_filenames_distinct [OF assms] find_filter_hd)
  next
    case (Cons k ks)
    then have "k \<in> set (filter is_kml_entry files)"
      by simp
    then have k: "k \<in> set files" "\<not> dir k"
      by (auto simp: is_kml_entry_def)
    then have "zip_file files (entry_name k) = Some k"
      by (simp add: zip_file_def files_at_distinct [OF assms])
    then show ?thesis
      using None Cons
      by (simp add: find_kml_file_def kml_filenames_distinct [OF assms] find_filter_hd)
  qed
qed

text \<open>
  Claim C10.  A file whose name does not end in \<open>.kmz\<close>, whatever the case of its
  letters, is refused with the error \<open>Not a KMZ file\<close>, for every content and every
  archive reader: the content is not looked at.  In an archive the document is
  \<open>doc.kml\<close> when that entry exists and is no folder, else the first entry in the order
  of the archive that is no folder and whose name ends in \<open>.kml\<close>, whatever the case;
  with no such entry the parse fails with the error of the container.  The entry found is
  the text handed to \<open>parseKml\<close>.
\<close>

theorem parseKmz_lookup:
  "(\<not> endsWith (toLowerCase (file_name f)) ''.kmz''
      \<longrightarrow> parseKmz loadAsync parseFromString uuid (Some f) = Inl NotAKmzFile)
   \<and> message NotAKmzFile = ''Not a KMZ file''
   \<and> (distinct (map entry_name files)
      \<longrightarrow> find_kml_file files =
            (case zip_file files ''doc.kml'' of
               Some k \<Rightarrow> Inr k
             | None \<Rightarrow> (case find is_kml_entry files of
                          Some k \<Rightarrow> Inr k
                        | None \<Rightarrow> Inl NoKmlFileInArchive)))
   \<and> (endsWith (toLowerCase (file_name f)) ''.kmz'' \<and> loadAsync (file_content f) = Some files
        \<and> find_kml_file files = Inl e
      \<longrightarrow> parseKmz loadAsync parseFromString uuid (Some f) = Inl e)
   \<and> (endsWith (toLowerCase (file_name f)) ''.kmz'' \<and> loadAsync (file_content f) = Some files
        \<and> find_kml_file files = Inr k \<and> async_string k = Some kmlContent
        \<and> trim kmlContent \<noteq> []
      \<longrightarrow> parseKmz loadAsync parseFromString uuid (Some f)
            = parseKml parseFromString uuid kmlContent)"
proof (intro conjI impI)
  assume "\<not> endsWith (toLowerCase (file_name f)) ''.kmz''"
  then show "parseKmz loadAsync parseFromString uuid (Some f) = Inl NotAKmzFile"
    by (simp add: parseKmz_def)
next
  show "message NotAKmzFile = ''Not a KMZ file''"
    by simp
next
  assume "distinct (map entry_name files)"
  then show "find_kml_file files =
            (case zip_file files ''doc.kml'' of
               Some k \<Rightarrow> Inr k
             | None \<Rightarrow> (case find is_kml_entry files of
                          Some k \<Rightarrow> Inr k
                        | None \<Rightarrow> Inl NoKmlFileInArchive))"
    by (rule find_kml_file_distinct)
next
  assume "endsWith (toLowerCase (file_name f)) ''.kmz'' \<and> loadAsync (file_content f) = Some files
        \<and> find_kml_file files = Inl e"
  then show "parseKmz loadAsync parseFromString uuid (Some f) = Inl e"
    by (simp add: parseKmz_def)
next
  assume a: "endsWith (toLowerCase (file_name f)) ''.kmz'' \<and> loadAsync (file_content f) = Some files
        \<and> find_kml_file files = Inr k \<and> async_string k = Some kmlContent
        \<and> trim kmlContent \<noteq> []"
  then have "kmlContent \<noteq> []"
    by (auto simp: trim_def)
  then show "parseKmz loadAsync parseFromString uuid (Some f)
            = parseKml parseFromString uuid kmlContent"
    using a by (simp add: parseKmz_def)
qed

lemmas lower_defs = toLowerCase_def lower_char_def upper_chars_def lower_chars_def

theorem parseKmz_lookup_witness:
  "endsWith (toLowerCase (file_name (sample_file ''Trip.KMZ''))) ''.kmz''
   \<and> parseKmz (\<lambda>c. Some sample_archive) (\<lambda>s. []) sample_uuid (Some (sample_file ''trip.kml''))
       = Inl NotAKmzFile
   \<and> distinct (map entry_name sample_archive)
   \<and> zip_file sample_archive ''doc.kml'' = None
   \<and> find_kml_file sample_archive
       = Inr \<lparr>entry_name = ''files/Map.KML'', dir = False, async_string = Some ''<kml></kml>''\<rparr>
   \<and> find_kml_file [\<lparr>entry_name = ''a.png'', dir = False, async_string = None\<rparr>]
       = Inl NoKmlFileInArchive
   \<and> parseKmz (\<lambda>c. Some [\<lparr>entry_name = ''a.png'', dir = False, async_string = None\<rparr>]) (\<lambda>s. [])
         sample_uuid (Some (sample_file ''Trip.KMZ''))
       = Inl NoKmlFileInArchive
   \<and> parseKmz (\<lambda>c. Some sample_archive) (\<lambda>s. []) sample_uuid (Some (sample_file ''Trip.KMZ''))
       = parseKml (\<lambda>s. []) sample_uuid ''<kml></kml>''"
proof -
  have n1: "endsWith (toLowerCase (file_name (sample_file ''Trip.KMZ''))) ''.kmz''"
    by (simp add: sample_file_def endsWith_def lower_defs suffix_def)
  have n2: "\<not> endsWith (toLowerCase (file_name (sample_file ''trip.kml''))) ''.kmz''"
    by (simp add: sample_file_def endsWith_def lower_defs suffix_def)
  have d: "distinct (map entry_name sample_archive)"
    by (simp add: sample_archive_def)
  have z: "zip_file sample_archive ''doc.kml'' = None"
    by (simp add: sample_archive_def zip_file_def files_at_def)
  have f1: "find is_kml_entry sample_archive
       = Some \<lparr>entry_name = ''files/Map.KML'', dir = False, async_string = Some ''<kml></kml>''\<rparr>"
    by (simp add: sample_archive_def is_kml_entry_def endsWith_def lower_defs suffix_def)
  have f2: "find_kml_file [\<lparr>entry_name = ''a.png'', dir = False, async_string = None\<rparr>]
       = Inl NoKmlFileInArchive"
    using parseKmz_lookup [of "sample_file ''Trip.KMZ''"
        "\<lambda>c. Some [\<lparr>entry_name = ''a.png'', dir = False, async_string = None\<rparr>]" "\<lambda>s. []"
        sample_uuid "[\<lparr>entry_name = ''a.png'', dir = False, async_string = None\<rparr>]"
        NoKmlFileInArchive "\<lparr>entry_name = [], dir = False, async_string = None\<rparr>" "[]"]
    by (simp add: zip_file_def files_at_def is_kml_entry_def endsWith_def lower_defs suffix_def)
  have f3: "find_kml_file sample_archive
       = Inr \<lparr>entry_name = ''files/Map.KML'', dir = False, async_string = Some ''<kml></kml>''\<rparr>"
    using parseKmz_lookup [of "sample_file ''Trip.KMZ''" "\<lambda>c. Some sample_archive" "\<lambda>s. []"
        sample_uuid sample_archive NoKmlFileInArchive
        "\<lparr>entry_name = ''files/Map.KML'', dir = False, async_string = Some ''<kml></kml>''\<rparr>"
        "''<kml></kml>''"] d z f1
    by simp
  have t: "trim ''<kml></kml>'' \<noteq> []"
    by (simp add: trim_def is_space_def)
  have p1: "parseKmz (\<lambda>c. Some sample_archive) (\<lambda>s. []) sample_uuid (Some (sample_file ''trip.kml''))
       = Inl NotAKmzFile"
    using parseKmz_lookup [of "sample_file ''trip.kml''" "\<lambda>c. Some sample_archive" "\<lambda>s. []"
        sample_uuid sample_archive NoKmlFileInArchive
        "\<lparr>entry_name = ''files/Map.KML'', dir = False, async_string = Some ''<kml></kml>''\<rparr>"
        "''<kml></kml>''"] n2
    by blast
  have p2: "parseKmz (\<lambda>c. Some [\<lparr>entry_name = ''a.png'', dir = False, async_string = None\<rparr>]) (\<lambda>s. [])
         sample_uuid (Some (sample_file ''Trip.KMZ''))
       = Inl NoKmlFileInArchive"
    using parseKmz_lookup [of "sample_file ''Trip.KMZ''"
        "\<lambda>c. Some [\<lparr>entry_name = ''a.png'', dir = False, async_string = None\<rparr>]" "\<lambda>s. []"
        sample_uuid "[\<lparr>entry_name = ''a.png'', dir = False, async_string = None\<rparr>]"
        NoKmlFileInArchive "\<lparr>entry_name = [], dir = False, async_string = None\<rparr>" "[]"] n1 f2
    by simp
  have p3: "parseKmz (\<lambda>c. Some sample_archive) (\<lambda>s. []) sample_uuid (Some (sample_file ''Trip.KMZ''))
       = parseKml (\<lambda>s. []) sample_uuid ''<kml></kml>''"
    using parseKmz_lookup [of "sample_file ''Trip.KMZ''" "\<lambda>c. Some sample_archive" "\<lambda>s. []"
        sample_uuid sample_archive NoKmlFileInArchive
        "\<lparr>entry_name = ''files/Map.KML'', dir = False, async_string = Some ''<kml></kml>''\<rparr>"
        "''<kml></kml>''"] n1 f3 t
    by simp
  show ?thesis
    using n1 p1 d z f3 f2 p2 p3 by blast
qed

section \<open>Namespace repair: properties\<close>

lemmas regex_defs = regex_tag_def regex_kml_tag_def replace_first_def

lemmas preprocess_defs = preprocessKml_def namespace_step_def KML_NAMESPACES_def

text \<open>
  Claim C3 against the code.  The root tag \<open><kml xmlns:gx="...">\<close> has no default
  declaration \<open>xmlns="..."\<close>.  The repair adds the declarations of \<open>xsi\<close>, \<open>atom\<close>
  and \<open>kml\<close> and leaves the default one out: the text \<open>xmlns\<close> occurs in the tag,
  inside \<open>xmlns:gx\<close>, and the test is on the text.
\<close>

theorem default_namespace_not_injected:
  \<open>regex_kml_tag ''<kml xmlns:gx="http://www.google.com/kml/ext/2.2"><Document/></kml>''
     = Some ''<kml xmlns:gx="http://www.google.com/kml/ext/2.2">''
   \<and> preprocessKml ''<kml xmlns:gx="http://www.google.com/kml/ext/2.2"><Document/></kml>''
     = ''<kml xmlns:gx="http://www.google.com/kml/ext/2.2" xmlns:xsi="http://www.w3.org/2001/XMLSchema-instance" xmlns:atom="http://www.w3.org/2005/Atom" xmlns:kml="http://www.opengis.net/kml/2.2"><Document/></kml>''\<close>
  by (simp add: preprocess_defs regex_defs)

section \<open>Document parser: properties\<close>

text \<open>The repaired text of the sample, which is what the XML parser is given.\<close>

lemma hidden_preprocess:
  \<open>preprocessKml hidden_placemark_text
   = ''<kml xmlns="http://www.opengis.net/kml/2.2" xmlns:xsi="http://www.w3.org/2001/XMLSchema-instance" xmlns:gx="http://www.google.com/kml/ext/2.2" xmlns:atom="http://www.w3.org/2005/Atom" xmlns:kml="http://www.opengis.net/kml/2.2"><!--<Placemark><Point><coordinates>1,2</coordinates></Point></Placemark>--></kml>''\<close>
  by (simp add: hidden_placemark_text_def preprocess_defs regex_defs)

lemma hidden_parse:
  "hidden_placemark_parser (preprocessKml hidden_placemark_text) = hidden_placemark_document"
  by (simp add: hidden_placemark_parser_def)

lemma hidden_no_error: "doc_querySelector [''parsererror''] hidden_placemark_document = None"
  by (simp add: hidden_placemark_document_def doc_querySelector_def doc_querySelectorAll_def
        doc_elems_def matches_def)

lemma hidden_structured:
  "structured_document uuid hidden_placemark_document
   = \<lparr>doc_name = None, doc_description = None, elements = []\<rparr>"
  by (simp add: structured_document_def hidden_placemark_document_def doc_querySelector_def
        doc_querySelectorAll_def doc_elems_def matches_def parseStyles_def parsePlacemarks_def
        or_undefined_def truthy_def)

lemma point_block_geometry:
  "fallback_geometry ''<Point><coordinates>1,2</coordinates></Point>''
   = Some (Point, ''<coordinates>1,2</coordinates>'')"
  by (simp add: fallback_geometry_def regex_tag_def)

lemma point_block_coordinates:
  "regex_tag ''coordinates'' ''<coordinates>1,2</coordinates>'' = Some (''1,2'', [])"
  by (simp add: regex_tag_def)

lemma point_block_name:
  "regex_tag ''name'' ''<Point><coordinates>1,2</coordinates></Point>'' = None"
  by (simp add: regex_tag_def)

lemma point_block_description:
  "regex_tag ''description'' ''<Point><coordinates>1,2</coordinates></Point>'' = None"
  by (simp add: regex_tag_def)

lemma point_block_triples: "parseCoordinatesText (trim ''1,2'') Point = [[Num 1, Num 2, Num 0]]"
  by (simp add: parseCoordinatesText_def coord_tokens_def trim_def pf_defs)

lemma point_block_element:
  "fallback_element uid ''<Point><coordinates>1,2</coordinates></Point>''
   = Some \<lparr>elem_id = uid, elem_type = Point, name = None, description = None,
            coordinates = Path [[Num 1, Num 2, Num 0]], style = Some fallback_style,
            extendedData = None, metadata = None\<rparr>"
  by (simp add: fallback_element_def point_block_geometry point_block_coordinates
        point_block_name point_block_description point_block_triples Let_def)

lemma hidden_match:
  "regex_tag ''Placemark'' hidden_placemark_text
   = Some (''<Point><coordinates>1,2</coordinates></Point>'', ''--></kml>'')"
  by (simp add: hidden_placemark_text_def regex_tag_def)

lemma hidden_rest: "regex_tag ''Placemark'' ''--></kml>'' = None"
  by (simp add: regex_tag_def)

lemma hidden_fallback:
  "fallbackParse uuid hidden_placemark_text =
     \<lparr>doc_name = None, doc_description = None,
      elements = [\<lparr>elem_id = uuid 0, elem_type = Point, name = None, description = None,
            coordinates = Path [[Num 1, Num 2, Num 0]], style = Some fallback_style,
            extendedData = None, metadata = None\<rparr>]\<rparr>"
  apply (simp only: fallbackParse_def)
  apply (subst fallback_loop.simps)
  apply (simp only: hidden_match option.case fst_conv snd_conv point_block_element list.size)
  apply (subst fallback_loop.simps)
  apply (simp only: hidden_rest option.case append_Nil)
  done

lemma broken_match:
  "regex_tag ''Placemark'' broken_text
   = Some (''<Point><coordinates>1,2</coordinates></Point>'', [])"
  by (simp add: broken_text_def regex_tag_def)

lemma broken_rest: "regex_tag ''Placemark'' [] = None"
  by (simp add: regex_tag_def)

lemma broken_fallback:
  "fallbackParse uuid broken_text =
     \<lparr>doc_name = None, doc_description = None,
      elements = [\<lparr>elem_id = uuid 0, elem_type = Point, name = None, description = None,
            coordinates = Path [[Num 1, Num 2, Num 0]], style = Some fallback_style,
            extendedData = None, metadata = None\<rparr>]\<rparr>"
  apply (simp only: fallbackParse_def)
  apply (subst fallback_loop.simps)
  apply (simp only: broken_match option.case fst_conv snd_conv point_block_element list.size)
  apply (subst fallback_loop.simps)
  apply (simp only: broken_rest option.case append_Nil)
  done

text \<open>
  Claim C1, as stated, fails.  The text with its placemark in a comment parses without an
  error and the extractor finds no element in the tree; \<open>parseKml\<close> returns the empty
  document and does not hand the text to the salvage parser, which finds a point in it.
\<close>

theorem empty_document_not_salvaged_counterexample:
  "hidden_placemark_text \<noteq> []
   \<and> doc_querySelector [''parsererror'']
        (hidden_placemark_parser (preprocessKml hidden_placemark_text)) = None
   \<and> parsePlacemarks sample_uuid (hidden_placemark_parser (preprocessKml hidden_placemark_text))
        (parseStyles (hidden_placemark_parser (preprocessKml hidden_placemark_text))) = []
   \<and> parseKml hidden_placemark_parser sample_uuid hidden_placemark_text
       = Inr \<lparr>doc_name = None, doc_description = None, elements = []\<rparr>
   \<and> map elem_type (elements (fallbackParse sample_uuid hidden_placemark_text)) = [Point]
   \<and> parseKml hidden_placemark_parser sample_uuid hidden_placemark_text
       \<noteq> Inr (fallbackParse sample_uuid hidden_placemark_text)"
proof -
  have ne: "hidden_placemark_text \<noteq> []"
    by (simp add: hidden_placemark_text_def)
  have els: "parsePlacemarks sample_uuid hidden_placemark_document
               (parseStyles hidden_placemark_document) = []"
    using hidden_structured [of sample_uuid] by (simp add: structured_document_def Let_def)
  have res: "parseKml hidden_placemark_parser sample_uuid hidden_placemark_text
       = Inr \<lparr>doc_name = None, doc_description = None, elements = []\<rparr>"
    using ne by (simp add: parseKml_def Let_def hidden_parse hidden_no_error hidden_structured)
  have diff: "parseKml hidden_placemark_parser sample_uuid hidden_placemark_text
       \<noteq> Inr (fallbackParse sample_uuid hidden_placemark_text)"
    unfolding res hidden_fallback by simp
  have salv: "map elem_type (elements (fallbackParse sample_uuid hidden_placemark_text)) = [Point]"
    unfolding hidden_fallback by simp
  show ?thesis
    using ne els res diff salv by (simp add: hidden_parse hidden_no_error)
qed

text \<open>
  Claim C1, amended.  For a text that is not empty: when the XML parse reports an error,
  \<open>parseKml\<close> returns what the salvage parser makes of the text; when it reports none,
  \<open>parseKml\<close> returns the document of the structured path, whose elements are those the
  extractor finds, and this also when it finds none: the result is then a document with
  no element, and the salvage parser is not run.
\<close>

theorem parseKml_routing:
  "(kmlString \<noteq> []
      \<and> doc_querySelector [''parsererror''] (parseFromString (preprocessKml kmlString)) \<noteq> None
      \<longrightarrow> parseKml parseFromString uuid kmlString = Inr (fallbackParse uuid kmlString))
   \<and> (kmlString \<noteq> []
      \<and> doc_querySelector [''parsererror''] (parseFromString (preprocessKml kmlString)) = None
      \<longrightarrow> parseKml parseFromString uuid kmlString
            = Inr (structured_document uuid (parseFromString (preprocessKml kmlString))))
   \<and> elements (structured_document uuid xmlDoc) = parsePlacemarks uuid xmlDoc (parseStyles xmlDoc)
   \<and> (kmlString \<noteq> []
      \<and> doc_querySelector [''parsererror''] (parseFromString (preprocessKml kmlString)) = None
      \<and> parsePlacemarks uuid (parseFromString (preprocessKml kmlString))
           (parseStyles (parseFromString (preprocessKml kmlString))) = []
      \<longrightarrow> (\<exists>n d. parseKml parseFromString uuid kmlString
                   = Inr \<lparr>doc_name = n, doc_description = d, elements = []\<rparr>))"
proof (intro conjI impI)
  assume "kmlString \<noteq> []
      \<and> doc_querySelector [''parsererror''] (parseFromString (preprocessKml kmlString)) \<noteq> None"
  then show "parseKml parseFromString uuid kmlString = Inr (fallbackParse uuid kmlString)"
    by (simp add: parseKml_def Let_def)
next
  assume "kmlString \<noteq> []
      \<and> doc_querySelector [''parsererror''] (parseFromString (preprocessKml kmlString)) = None"
  then show "parseKml parseFromString uuid kmlString
            = Inr (structured_document uuid (parseFromString (preprocessKml kmlString)))"
    by (simp add: parseKml_def Let_def)
next
  show "elements (structured_document uuid xmlDoc) = parsePlacemarks uuid xmlDoc (parseStyles xmlDoc)"
    by (simp add: structured_document_def Let_def)
next
  assume a: "kmlString \<noteq> []
      \<and> doc_querySelector [''parsererror''] (parseFromString (preprocessKml kmlString)) = None
      \<and> parsePlacemarks uuid (parseFromString (preprocessKml kmlString))
           (parseStyles (parseFromString (preprocessKml kmlString))) = []"
  then have "parseKml parseFromString uuid kmlString
            = Inr (structured_document uuid (parseFromString (preprocessKml kmlString)))"
    by (simp add: parseKml_def Let_def)
  moreover have "elements (structured_document uuid (parseFromString (preprocessKml kmlString))) = []"
    using a by (simp add: structured_document_def Let_def)
  ultimately show "\<exists>n d. parseKml parseFromString uuid kmlString
                   = Inr \<lparr>doc_name = n, doc_description = d, elements = []\<rparr>"
    by (simp add: structured_document_def Let_def)
qed

theorem parseKml_routing_witness:
  "broken_text \<noteq> []
   \<and> doc_querySelector [''parsererror''] (failing_parser (preprocessKml broken_text)) \<noteq> None
   \<and> parseKml failing_parser sample_uuid broken_text = Inr (fallbackParse sample_uuid broken_text)
   \<and> map elem_type (elements (fallbackParse sample_uuid broken_text)) = [Point]
   \<and> hidden_placemark_text \<noteq> []
   \<and> doc_querySelector [''parsererror'']
        (hidden_placemark_parser (preprocessKml hidden_placemark_text)) = None
   \<and> parsePlacemarks sample_uuid (hidden_placemark_parser (preprocessKml hidden_placemark_text))
        (parseStyles (hidden_placemark_parser (preprocessKml hidden_placemark_text))) = []
   \<and> parseKml hidden_placemark_parser sample_uuid hidden_placemark_text
       = Inr (structured_document sample_uuid hidden_placemark_document)
   \<and> structured_document sample_uuid hidden_placemark_document
       = \<lparr>doc_name = None, doc_description = None, elements = []\<rparr>"
proof -
  have b1: "broken_text \<noteq> []"
    by (simp add: broken_text_def)
  have b2: "doc_querySelector [''parsererror''] (failing_parser (preprocessKml broken_text)) \<noteq> None"
    by (simp add: failing_parser_def parsererror_document_def doc_querySelector_def
          doc_querySelectorAll_def doc_elems_def matches_def)
  have b3: "parseKml failing_parser sample_uuid broken_text
              = Inr (fallbackParse sample_uuid broken_text)"
    using parseKml_routing [of broken_text failing_parser sample_uuid hidden_placemark_document]
      b1 b2
    by blast
  have b4: "map elem_type (elements (fallbackParse sample_uuid broken_text)) = [Point]"
    unfolding broken_fallback by simp
  have h1: "hidden_placemark_text \<noteq> []"
    by (simp add: hidden_placemark_text_def)
  have h2: "doc_querySelector [''parsererror'']
        (hidden_placemark_parser (preprocessKml hidden_placemark_text)) = None"
    by (simp add: hidden_parse hidden_no_error)
  have h3: "parsePlacemarks sample_uuid hidden_placemark_document
               (parseStyles hidden_placemark_document) = []"
    using hidden_structured [of sample_uuid] by (simp add: structured_document_def Let_def)
  have h4: "parseKml hidden_placemark_parser sample_uuid hidden_placemark_text
       = Inr (structured_document sample_uuid hidden_placemark_document)"
    using parseKml_routing [of hidden_placemark_text hidden_placemark_parser sample_uuid
        hidden_placemark_document] h1 h2
    by (simp add: hidden_parse)
  show ?thesis
    using b1 b2 b3 b4 h1 h2 h3 h4 hidden_structured [of sample_uuid]
    by (simp add: hidden_parse)
qed

end
